theory Spec2Isabelle
  imports Complex_Main "HOL-Library.Word"
begin

section \<open>JavaScript values, as the handlers see them\<close>

text \<open>
  A request body is whatever \<^verbatim>\<open>request.json()\<close> parsed: the handlers destructure it
  without checking any type, so every field is a JSON value and an omitted field is
  \<^verbatim>\<open>undefined\<close>. A number is a rational, as a JSON literal writes it.
\<close>

datatype jsval =
    JUndefined
  | JNull
  | JBool bool
  | JNum rat
  | JStr string
  | JArr "jsval list"
  | JObj "(string \<times> jsval) list"

text \<open>\<^verbatim>\<open>!x\<close> is \<open>\<not> truthy x\<close>: undefined, null, false, 0 and the empty string are falsy.\<close>

fun truthy :: "jsval \<Rightarrow> bool" where
  "truthy JUndefined = False"
| "truthy JNull = False"
| "truthy (JBool b) = b"
| "truthy (JNum n) = (n \<noteq> 0)"
| "truthy (JStr s) = (s \<noteq> [])"
| "truthy (JArr xs) = True"
| "truthy (JObj kvs) = True"

text \<open>\<^verbatim>\<open>a === b\<close>: primitives by value, objects and arrays by identity; two values parsed
  from a body are never the same object.\<close>

fun strict_eq :: "jsval \<Rightarrow> jsval \<Rightarrow> bool" where
  "strict_eq (JArr xs) b = False"
| "strict_eq (JObj kvs) b = False"
| "strict_eq a b = (a = b)"

text \<open>\<^verbatim>\<open>data.k\<close> for the keys the handlers read: a missing key, and any key of a
  number, string, boolean or array, is undefined. (On null the destructuring throws; the
  handlers below treat that case before reading a property.)\<close>

fun getProp :: "jsval \<Rightarrow> string \<Rightarrow> jsval" where
  "getProp (JObj kvs) k = (case map_of kvs k of None \<Rightarrow> JUndefined | Some v \<Rightarrow> v)"
| "getProp v k = JUndefined"

text \<open>\<^verbatim>\<open>const { a, b, ...rest } = data\<close>: the object without the named keys. (The rest of
  a string or an array holds its indexed elements; no handler gets that far with such a
  body, whose \<^verbatim>\<open>adminUserId\<close> is undefined, and the rest is left empty here.)\<close>

fun rest_of :: "string list \<Rightarrow> jsval \<Rightarrow> jsval" where
  "rest_of ks (JObj kvs) = JObj (filter (\<lambda>(k, v). k \<notin> set ks) kvs)"
| "rest_of ks v = JObj []"

text \<open>A JavaScript string whose length and whitespace matter is a list of UTF-16 code
  units; identifiers, keys and fixed messages are plain \<open>string\<close>s.\<close>

type_synonym jsstring = "16 word list"

definition isWhiteSpace :: "16 word \<Rightarrow> bool" where
  "isWhiteSpace c \<longleftrightarrow>
     c \<in> {0x0009, 0x000A, 0x000B, 0x000C, 0x000D, 0x0020, 0x00A0, 0x1680,
          0x2000, 0x2001, 0x2002, 0x2003, 0x2004, 0x2005, 0x2006, 0x2007, 0x2008, 0x2009,
          0x200A, 0x2028, 0x2029, 0x202F, 0x205F, 0x3000, 0xFEFF}"

definition trim :: "jsstring \<Rightarrow> jsstring" where
  "trim s = rev (dropWhile isWhiteSpace (rev (dropWhile isWhiteSpace s)))"

definition slice0 :: "nat \<Rightarrow> jsstring \<Rightarrow> jsstring" where
  "slice0 n s = take n s"

section \<open>The store (prisma/schema.prisma)\<close>

text \<open>
  One list of rows per table the admin handlers touch. Times are milliseconds. The
  conversation, message and token-usage rows keep their key columns only, the columns of
  type Float are left out, and the provider, model and system-settings tables, which no
  handler here reads or writes, are not part of the store.
\<close>

datatype UserRole = ADMIN | USER | GUEST

record User =
  user_id :: string
  user_email :: "string option"
  user_username :: "string option"
  user_password :: "string option"
  user_avatar :: "string option"
  user_role :: UserRole
  user_isActive :: bool
  user_canShareAccessCode :: bool
  user_resetToken :: "string option"
  user_resetTokenExpiry :: "int option"
  user_invitedBy :: "string option"
  user_usedInviteCode :: "string option"
  user_usedAccessCode :: "string option"
  user_hostUserId :: "string option"
  user_createdAt :: int
  user_updatedAt :: int

record UserSettings =
  us_id :: string
  us_userId :: string
  us_defaultModelId :: "string option"
  us_theme :: string
  us_language :: string
  us_enableMarkdown :: bool
  us_enableLatex :: bool
  us_enableCodeHighlight :: bool
  us_messagePageSize :: int
  us_createdAt :: int
  us_updatedAt :: int

record Conversation =
  conv_id :: string
  conv_userId :: string

record Message =
  msg_id :: string
  msg_conversationId :: string
  msg_userId :: string

record TokenUsage =
  tu_id :: string
  tu_userId :: string
  tu_conversationId :: "string option"

record UserPermission =
  up_id :: string
  up_userId :: string
  up_permissions :: "string list"
  up_limitType :: string
  up_limitPeriod :: string
  up_tokenLimit :: "int option"
  up_tokenUsed :: int
  up_lastResetAt :: int
  up_createdAt :: int
  up_updatedAt :: int

record InviteCode =
  ic_id :: string
  ic_code :: string
  ic_createdBy :: string
  ic_isUsed :: bool
  ic_usedBy :: "string option"
  ic_usedAt :: "int option"
  ic_expiresAt :: "int option"
  ic_maxUses :: int
  ic_currentUses :: int
  ic_createdAt :: int
  ic_updatedAt :: int

record AccessCode =
  ac_id :: string
  ac_code :: string
  ac_createdBy :: string
  ac_isActive :: bool
  ac_expiresAt :: "int option"
  ac_maxUses :: "int option"
  ac_currentUses :: int
  ac_allowedModelIds :: "string option"
  ac_createdAt :: int
  ac_updatedAt :: int

record ModelGroupOrder =
  mgo_id :: string
  mgo_userId :: string
  mgo_groupName :: string
  mgo_order :: int
  mgo_createdAt :: int
  mgo_updatedAt :: int

record store =
  users :: "User list"
  userSettings :: "UserSettings list"
  userPermissions :: "UserPermission list"
  conversations :: "Conversation list"
  messages :: "Message list"
  tokenUsages :: "TokenUsage list"
  inviteCodes :: "InviteCode list"
  accessCodes :: "AccessCode list"
  modelGroupOrders :: "ModelGroupOrder list"

section \<open>Responses\<close>

text \<open>
  The body of a response, by the shape the handler gives it: \<open>Error m\<close> is
  \<^verbatim>\<open>{ error: m }\<close>; \<open>UserExists\<close> is the error body of the user-creation handler whose
  message (in Chinese) says that the user name or e-mail address is taken;
  \<open>ExecFailure m out err\<close> is the reset failure with \<^verbatim>\<open>details\<close>, \<^verbatim>\<open>stdout\<close> and
  \<^verbatim>\<open>stderr\<close>; \<open>ResetDone r d\<close> is the reset success with both outputs; \<open>Success m\<close> is
  \<^verbatim>\<open>{ success: true, message: m }\<close>; \<open>UserSummary\<close> has the id, user name, e-mail
  address, role and active flag of a created user; a code row comes with its creator's id
  and user name where the statement includes the creator; \<open>Payload v\<close> is a value produced
  by code outside these files.
\<close>

datatype body =
    Error string
  | UserExists
  | ExecFailure string jsstring jsstring
  | ResetDone jsstring jsstring
  | ResetInfo
  | Success string
  | UserSummary string "string option" "string option" UserRole bool
  | InviteCodeBody InviteCode "(string \<times> string option) option"
  | AccessCodeBody AccessCode "(string \<times> string option) option"
  | Payload jsval

record response =
  status :: nat
  body :: body

definition json :: "body \<Rightarrow> nat \<Rightarrow> response" where
  "json b st = \<lparr>status = st, body = b\<rparr>"

text \<open>The answer to a caller who does not hold the permission.\<close>

definition denied :: response where
  "denied = \<lparr>status = 403, body = Error ''Access denied''\<rparr>"

section \<open>The ORM client\<close>

text \<open>
  What a rejected promise of the client carries. Every handler catches it in its outer
  \<^verbatim>\<open>catch\<close> and answers 500, so only the fact of the failure matters.
\<close>

datatype exn =
    ValidationError
  | RecordNotFound
  | UniqueConstraint
  | ForeignKeyConstraint
  | ConnectionError
  | IllegalArguments

text \<open>The statements the handlers issue. A statement can also fail for a reason outside
  the store (a lost connection, a timeout): the parameter \<open>fails\<close> of the operations
  below says for which statements of the request that happens.\<close>

datatype dbop =
    UserFindUnique | UserFindFirst | UserCreate | UserSettingsCreate | UserPermissionCreate
  | MessageDeleteMany | ConversationDeleteMany | TokenUsageDeleteMany
  | UserPermissionDeleteMany | InviteCodeDeleteMany | AccessCodeDeleteMany | UserDelete
  | InviteCodeFindMany | AccessCodeFindMany | InviteCodeCreate | AccessCodeCreate
  | InviteCodeDelete | AccessCodeDelete
  | InviteCodeFindUnique | InviteCodeUpdate | AccessCodeFindUnique | AccessCodeUpdate

text \<open>A \<^verbatim>\<open>where: { id: v }\<close> on a String column takes a string; any other value is
  refused by the client before the statement is sent.\<close>

fun whereString :: "jsval \<Rightarrow> exn + string" where
  "whereString (JStr s) = Inr s"
| "whereString v = Inl ValidationError"

text \<open>A \<^verbatim>\<open>where: { userId: v }\<close> of a \<^verbatim>\<open>deleteMany\<close>: a string selects the rows with that
  value and undefined leaves the filter out. (Filter objects are not modelled: the one
  handler that calls \<^verbatim>\<open>deleteMany\<close> has passed the same value to \<^verbatim>\<open>findUnique\<close> first.)\<close>

fun whereEquals :: "jsval \<Rightarrow> exn + (string \<Rightarrow> bool)" where
  "whereEquals (JStr s) = Inr (\<lambda>x. x = s)"
| "whereEquals JUndefined = Inr (\<lambda>x. True)"
| "whereEquals v = Inl ValidationError"

subsection \<open>Referential actions of the schema\<close>

text \<open>Deleting conversations deletes their messages (\<^verbatim>\<open>onDelete: Cascade\<close>) and clears
  the conversation of their token-usage rows (\<^verbatim>\<open>onDelete: SetNull\<close>).\<close>

definition cascadeConversations :: "string list \<Rightarrow> store \<Rightarrow> store" where
  "cascadeConversations cids s =
     s\<lparr>messages := filter (\<lambda>m. msg_conversationId m \<notin> set cids) (messages s),
       tokenUsages :=
         map (\<lambda>t. case tu_conversationId t of
                     None \<Rightarrow> t
                   | Some c \<Rightarrow> if c \<in> set cids then t\<lparr>tu_conversationId := None\<rparr> else t)
             (tokenUsages s)\<rparr>"

definition deleteConversationsWhere :: "(string \<Rightarrow> bool) \<Rightarrow> store \<Rightarrow> store" where
  "deleteConversationsWhere p s =
     cascadeConversations (map conv_id (filter (\<lambda>c. p (conv_userId c)) (conversations s)))
       (s\<lparr>conversations := filter (\<lambda>c. \<not> p (conv_userId c)) (conversations s)\<rparr>)"

text \<open>Every relation to a user is \<^verbatim>\<open>onDelete: Cascade\<close>.\<close>

definition cascadeUser :: "string \<Rightarrow> store \<Rightarrow> store" where
  "cascadeUser i s =
     deleteConversationsWhere (\<lambda>x. x = i)
       (s\<lparr>userSettings := filter (\<lambda>r. us_userId r \<noteq> i) (userSettings s),
          userPermissions := filter (\<lambda>r. up_userId r \<noteq> i) (userPermissions s),
          messages := filter (\<lambda>r. msg_userId r \<noteq> i) (messages s),
          tokenUsages := filter (\<lambda>r. tu_userId r \<noteq> i) (tokenUsages s),
          inviteCodes := filter (\<lambda>r. ic_createdBy r \<noteq> i) (inviteCodes s),
          accessCodes := filter (\<lambda>r. ac_createdBy r \<noteq> i) (accessCodes s),
          modelGroupOrders := filter (\<lambda>r. mgo_userId r \<noteq> i) (modelGroupOrders s)\<rparr>)"

subsection \<open>Reads\<close>

definition user_findUnique :: "(dbop \<Rightarrow> bool) \<Rightarrow> jsval \<Rightarrow> store \<Rightarrow> exn + User option" where
  "user_findUnique fails i s =
     (case whereString i of
        Inl e \<Rightarrow> Inl e
      | Inr k \<Rightarrow> if fails UserFindUnique then Inl ConnectionError
                 else Inr (find (\<lambda>u. user_id u = k) (users s)))"

definition inviteCode_findUnique ::
  "(dbop \<Rightarrow> bool) \<Rightarrow> jsval \<Rightarrow> store \<Rightarrow> exn + InviteCode option" where
  "inviteCode_findUnique fails i s =
     (case whereString i of
        Inl e \<Rightarrow> Inl e
      | Inr k \<Rightarrow> if fails InviteCodeFindUnique then Inl ConnectionError
                 else Inr (find (\<lambda>c. ic_id c = k) (inviteCodes s)))"

definition accessCode_findUnique ::
  "(dbop \<Rightarrow> bool) \<Rightarrow> jsval \<Rightarrow> store \<Rightarrow> exn + AccessCode option" where
  "accessCode_findUnique fails i s =
     (case whereString i of
        Inl e \<Rightarrow> Inl e
      | Inr k \<Rightarrow> if fails AccessCodeFindUnique then Inl ConnectionError
                 else Inr (find (\<lambda>c. ac_id c = k) (accessCodes s)))"

subsection \<open>Deletes\<close>

definition message_deleteMany :: "jsval \<Rightarrow> store \<Rightarrow> exn + store" where
  "message_deleteMany userId s =
     (case whereEquals userId of
        Inl e \<Rightarrow> Inl e
      | Inr p \<Rightarrow> Inr (s\<lparr>messages := filter (\<lambda>r. \<not> p (msg_userId r)) (messages s)\<rparr>))"

definition conversation_deleteMany :: "jsval \<Rightarrow> store \<Rightarrow> exn + store" where
  "conversation_deleteMany userId s =
     (case whereEquals userId of
        Inl e \<Rightarrow> Inl e
      | Inr p \<Rightarrow> Inr (deleteConversationsWhere p s))"

definition tokenUsage_deleteMany :: "jsval \<Rightarrow> store \<Rightarrow> exn + store" where
  "tokenUsage_deleteMany userId s =
     (case whereEquals userId of
        Inl e \<Rightarrow> Inl e
      | Inr p \<Rightarrow> Inr (s\<lparr>tokenUsages := filter (\<lambda>r. \<not> p (tu_userId r)) (tokenUsages s)\<rparr>))"

definition userPermission_deleteMany :: "jsval \<Rightarrow> store \<Rightarrow> exn + store" where
  "userPermission_deleteMany userId s =
     (case whereEquals userId of
        Inl e \<Rightarrow> Inl e
      | Inr p \<Rightarrow>
          Inr (s\<lparr>userPermissions := filter (\<lambda>r. \<not> p (up_userId r)) (userPermissions s)\<rparr>))"

definition inviteCode_deleteMany :: "jsval \<Rightarrow> store \<Rightarrow> exn + store" where
  "inviteCode_deleteMany createdBy s =
     (case whereEquals createdBy of
        Inl e \<Rightarrow> Inl e
      | Inr p \<Rightarrow> Inr (s\<lparr>inviteCodes := filter (\<lambda>r. \<not> p (ic_createdBy r)) (inviteCodes s)\<rparr>))"

definition accessCode_deleteMany :: "jsval \<Rightarrow> store \<Rightarrow> exn + store" where
  "accessCode_deleteMany createdBy s =
     (case whereEquals createdBy of
        Inl e \<Rightarrow> Inl e
      | Inr p \<Rightarrow> Inr (s\<lparr>accessCodes := filter (\<lambda>r. \<not> p (ac_createdBy r)) (accessCodes s)\<rparr>))"

text \<open>\<^verbatim>\<open>delete\<close> rejects when no row has the id.\<close>

definition user_delete :: "jsval \<Rightarrow> store \<Rightarrow> exn + store" where
  "user_delete i s =
     (case whereString i of
        Inl e \<Rightarrow> Inl e
      | Inr k \<Rightarrow>
          if find (\<lambda>u. user_id u = k) (users s) = None then Inl RecordNotFound
          else Inr (cascadeUser k (s\<lparr>users := filter (\<lambda>u. user_id u \<noteq> k) (users s)\<rparr>)))"

definition inviteCode_delete :: "(dbop \<Rightarrow> bool) \<Rightarrow> jsval \<Rightarrow> store \<Rightarrow> exn + store" where
  "inviteCode_delete fails i s =
     (case whereString i of
        Inl e \<Rightarrow> Inl e
      | Inr k \<Rightarrow>
          if fails InviteCodeDelete then Inl ConnectionError
          else if find (\<lambda>c. ic_id c = k) (inviteCodes s) = None then Inl RecordNotFound
          else Inr (s\<lparr>inviteCodes := filter (\<lambda>c. ic_id c \<noteq> k) (inviteCodes s)\<rparr>))"

definition accessCode_delete :: "(dbop \<Rightarrow> bool) \<Rightarrow> jsval \<Rightarrow> store \<Rightarrow> exn + store" where
  "accessCode_delete fails i s =
     (case whereString i of
        Inl e \<Rightarrow> Inl e
      | Inr k \<Rightarrow>
          if fails AccessCodeDelete then Inl ConnectionError
          else if find (\<lambda>c. ac_id c = k) (accessCodes s) = None then Inl RecordNotFound
          else Inr (s\<lparr>accessCodes := filter (\<lambda>c. ac_id c \<noteq> k) (accessCodes s)\<rparr>))"

subsection \<open>Transactions\<close>

text \<open>
  The body of an interactive transaction is a sequence of statements on the transaction
  client. \<open>runSteps\<close> issues them in order and stops at the first that rejects; its second
  component is the journal of the statements issued. \<open>transaction\<close> commits the store
  the body reached, or rolls back to the store it started from when the body rejects.
\<close>

fun runSteps ::
  "(dbop \<Rightarrow> bool) \<Rightarrow> (dbop \<times> (store \<Rightarrow> exn + store)) list \<Rightarrow> store \<Rightarrow> (exn + store) \<times> dbop list"
where
  "runSteps fails [] s = (Inr s, [])"
| "runSteps fails ((op, f) # steps) s =
     (if fails op then (Inl ConnectionError, [op])
      else case f s of
             Inl e \<Rightarrow> (Inl e, [op])
           | Inr s' \<Rightarrow> (case runSteps fails steps s' of (r, j) \<Rightarrow> (r, op # j)))"

definition transaction ::
  "(store \<Rightarrow> (exn + store) \<times> dbop list) \<Rightarrow> store \<Rightarrow> exn option \<times> store \<times> dbop list" where
  "transaction tx s =
     (case tx s of
        (Inl e, j) \<Rightarrow> (Some e, s, j)
      | (Inr s', j) \<Rightarrow> (None, s', j))"

subsection \<open>Creates and updates\<close>

text \<open>What the client accepts for a nullable String column, for the role and for an Int
  column (a 32-bit integer in the database). For an Int column the client takes any number
  and does not ask for an integer: the fraction of the number is cut off (\<open>truncToInt\<close>,
  toward zero), so that 0.5 is stored as 0 and 1.5 as 1.\<close>

fun optString :: "jsval \<Rightarrow> exn + string option" where
  "optString (JStr s) = Inr (Some s)"
| "optString JNull = Inr None"
| "optString JUndefined = Inr None"
| "optString v = Inl ValidationError"

fun roleOf :: "jsval \<Rightarrow> exn + UserRole" where
  "roleOf (JStr r) =
     (if r = ''ADMIN'' then Inr ADMIN else if r = ''USER'' then Inr USER
      else if r = ''GUEST'' then Inr GUEST else Inl ValidationError)"
| "roleOf v = Inl ValidationError"

definition truncToInt :: "rat \<Rightarrow> int" where
  "truncToInt q = (if 0 \<le> q then \<lfloor>q\<rfloor> else \<lceil>q\<rceil>)"

fun int32Of :: "jsval \<Rightarrow> exn + int" where
  "int32Of (JNum q) =
     (if - (2 ^ 31) \<le> truncToInt q \<and> truncToInt q < 2 ^ 31 then Inr (truncToInt q)
      else Inl ValidationError)"
| "int32Of v = Inl ValidationError"

text \<open>A DateTime argument: null, or the result of \<^verbatim>\<open>new Date(x)\<close>, which is an invalid
  date (refused by the client) or a time.\<close>

datatype dateArg = DNull | DInvalid | DValid int

fun dateOf :: "dateArg \<Rightarrow> exn + int option" where
  "dateOf DNull = Inr None"
| "dateOf DInvalid = Inl ValidationError"
| "dateOf (DValid t) = Inr (Some t)"

text \<open>\<^verbatim>\<open>user.findFirst({ where: { OR: [{ username: { equals, mode: 'insensitive' } },
  ...(email ? [{ email }] : [])] } })\<close>. The comparison of a stored user name with the
  requested one is the database's (\<^verbatim>\<open>ILIKE\<close> on PostgreSQL, where \<^verbatim>\<open>_\<close> and \<^verbatim>\<open>%\<close> of the
  requested name are wildcards); it is the parameter \<open>matches\<close>, applied to the stored and
  the requested name. The arguments are strings here; a filter object in their place is
  not modelled and counts as refused.\<close>

definition user_findFirst ::
  "(dbop \<Rightarrow> bool) \<Rightarrow> (string \<Rightarrow> string \<Rightarrow> bool) \<Rightarrow> jsval \<Rightarrow> jsval \<Rightarrow> store \<Rightarrow> exn + User option"
where
  "user_findFirst fails matches username email s =
     (case whereString username of
        Inl e \<Rightarrow> Inl e
      | Inr n \<Rightarrow>
          (case (if truthy email then whereString email else Inr []) of
             Inl e \<Rightarrow> Inl e
           | Inr m \<Rightarrow>
               if fails UserFindFirst then Inl ConnectionError
               else Inr (find (\<lambda>u. (case user_username u of
                                        None \<Rightarrow> False | Some x \<Rightarrow> matches x n)
                                   \<or> (truthy email \<and> user_email u = Some m))
                              (users s))))"

definition user_create ::
  "(dbop \<Rightarrow> bool) \<Rightarrow> string \<Rightarrow> int \<Rightarrow> jsval \<Rightarrow> jsval \<Rightarrow> string \<Rightarrow> jsval \<Rightarrow> store
     \<Rightarrow> exn + User \<times> store" where
  "user_create fails newId t username email hashedPassword r s =
     (case optString username of
        Inl e \<Rightarrow> Inl e
      | Inr n \<Rightarrow>
     (case optString email of
        Inl e \<Rightarrow> Inl e
      | Inr m \<Rightarrow>
     (case roleOf r of
        Inl e \<Rightarrow> Inl e
      | Inr ro \<Rightarrow>
          if fails UserCreate then Inl ConnectionError
          else if \<exists>u \<in> set (users s).
                    user_id u = newId \<or> (n \<noteq> None \<and> user_username u = n)
                    \<or> (m \<noteq> None \<and> user_email u = m)
          then Inl UniqueConstraint
          else
            (let user = \<lparr>user_id = newId, user_email = m, user_username = n,
                         user_password = Some hashedPassword, user_avatar = None,
                         user_role = ro, user_isActive = True,
                         user_canShareAccessCode = True, user_resetToken = None,
                         user_resetTokenExpiry = None, user_invitedBy = None,
                         user_usedInviteCode = None, user_usedAccessCode = None,
                         user_hostUserId = None, user_createdAt = t, user_updatedAt = t\<rparr>
             in Inr (user, s\<lparr>users := users s @ [user]\<rparr>)))))"

definition userSettings_create ::
  "(dbop \<Rightarrow> bool) \<Rightarrow> string \<Rightarrow> int \<Rightarrow> string \<Rightarrow> store \<Rightarrow> exn + store" where
  "userSettings_create fails newId t userId s =
     (if fails UserSettingsCreate then Inl ConnectionError
      else if \<exists>r \<in> set (userSettings s). us_id r = newId \<or> us_userId r = userId
      then Inl UniqueConstraint
      else if find (\<lambda>u. user_id u = userId) (users s) = None then Inl ForeignKeyConstraint
      else Inr (s\<lparr>userSettings := userSettings s @
                  [\<lparr>us_id = newId, us_userId = userId, us_defaultModelId = None,
                    us_theme = ''light'', us_language = ''zh-CN'', us_enableMarkdown = True,
                    us_enableLatex = True, us_enableCodeHighlight = True,
                    us_messagePageSize = 50, us_createdAt = t, us_updatedAt = t\<rparr>]\<rparr>))"

text \<open>The columns of the permission model that \<^verbatim>\<open>create\<close> accepts in its data. The
  client refuses a data object that names anything else.\<close>

definition userPermissionColumns :: "string list" where
  "userPermissionColumns =
     [''id'', ''userId'', ''permissions'', ''limitType'', ''limitPeriod'', ''tokenLimit'',
      ''costLimit'', ''tokenUsed'', ''lastResetAt'', ''createdAt'', ''updatedAt'']"

definition userPermission_create ::
  "(dbop \<Rightarrow> bool) \<Rightarrow> string \<Rightarrow> int \<Rightarrow> (string \<times> jsval) list \<Rightarrow> store \<Rightarrow> exn + store" where
  "userPermission_create fails newId t data s =
     (if \<exists>k \<in> set (map fst data). k \<notin> set userPermissionColumns then Inl ValidationError
      else (case map_of data ''userId'' of
        Some (JStr userId) \<Rightarrow>
          if fails UserPermissionCreate then Inl ConnectionError
          else if \<exists>r \<in> set (userPermissions s). up_id r = newId \<or> up_userId r = userId
          then Inl UniqueConstraint
          else if find (\<lambda>u. user_id u = userId) (users s) = None then Inl ForeignKeyConstraint
          else
            (case (case map_of data ''tokenLimit'' of
                     None \<Rightarrow> Inr None | Some JNull \<Rightarrow> Inr None | Some JUndefined \<Rightarrow> Inr None
                   | Some v \<Rightarrow> map_sum id Some (int32Of v)) of
               Inl e \<Rightarrow> Inl e
             | Inr tokenLimit \<Rightarrow>
                 Inr (s\<lparr>userPermissions := userPermissions s @
                       [\<lparr>up_id = newId, up_userId = userId, up_permissions = [],
                         up_limitType = ''none'', up_limitPeriod = ''monthly'',
                         up_tokenLimit = tokenLimit, up_tokenUsed = 0, up_lastResetAt = t,
                         up_createdAt = t, up_updatedAt = t\<rparr>]\<rparr>))
      | _ \<Rightarrow> Inl ValidationError))"

text \<open>The \<^verbatim>\<open>include: { creator: { select: { id, username } } }\<close> of the code statements.\<close>

definition creatorOf :: "string \<Rightarrow> store \<Rightarrow> (string \<times> string option) option" where
  "creatorOf i s = map_option (\<lambda>u. (user_id u, user_username u)) (find (\<lambda>u. user_id u = i) (users s))"

definition inviteCode_create ::
  "(dbop \<Rightarrow> bool) \<Rightarrow> string \<Rightarrow> int \<Rightarrow> string \<Rightarrow> jsval \<Rightarrow> dateArg \<Rightarrow> jsval \<Rightarrow> store
     \<Rightarrow> exn + (InviteCode \<times> (string \<times> string option) option) \<times> store" where
  "inviteCode_create fails newId t code maxUses expiresAt createdBy s =
     (case int32Of maxUses of
        Inl e \<Rightarrow> Inl e
      | Inr n \<Rightarrow>
     (case dateOf expiresAt of
        Inl e \<Rightarrow> Inl e
      | Inr ex \<Rightarrow>
     (case whereString createdBy of
        Inl e \<Rightarrow> Inl e
      | Inr by \<Rightarrow>
          if fails InviteCodeCreate then Inl ConnectionError
          else if \<exists>c \<in> set (inviteCodes s). ic_id c = newId \<or> ic_code c = code
          then Inl UniqueConstraint
          else if find (\<lambda>u. user_id u = by) (users s) = None then Inl ForeignKeyConstraint
          else
            (let row = \<lparr>ic_id = newId, ic_code = code, ic_createdBy = by, ic_isUsed = False,
                        ic_usedBy = None, ic_usedAt = None, ic_expiresAt = ex, ic_maxUses = n,
                        ic_currentUses = 0, ic_createdAt = t, ic_updatedAt = t\<rparr>
             in Inr ((row, creatorOf by s), s\<lparr>inviteCodes := inviteCodes s @ [row]\<rparr>)))))"

definition accessCode_create ::
  "(dbop \<Rightarrow> bool) \<Rightarrow> string \<Rightarrow> int \<Rightarrow> string \<Rightarrow> dateArg \<Rightarrow> jsval \<Rightarrow> store
     \<Rightarrow> exn + (AccessCode \<times> (string \<times> string option) option) \<times> store" where
  "accessCode_create fails newId t code expiresAt createdBy s =
     (case dateOf expiresAt of
        Inl e \<Rightarrow> Inl e
      | Inr ex \<Rightarrow>
     (case whereString createdBy of
        Inl e \<Rightarrow> Inl e
      | Inr by \<Rightarrow>
          if fails AccessCodeCreate then Inl ConnectionError
          else if \<exists>c \<in> set (accessCodes s). ac_id c = newId \<or> ac_code c = code
          then Inl UniqueConstraint
          else if find (\<lambda>u. user_id u = by) (users s) = None then Inl ForeignKeyConstraint
          else
            (let row = \<lparr>ac_id = newId, ac_code = code, ac_createdBy = by, ac_isActive = True,
                        ac_expiresAt = ex, ac_maxUses = None, ac_currentUses = 0,
                        ac_allowedModelIds = None, ac_createdAt = t, ac_updatedAt = t\<rparr>
             in Inr ((row, creatorOf by s), s\<lparr>accessCodes := accessCodes s @ [row]\<rparr>))))"

text \<open>\<^verbatim>\<open>update({ where: { id }, data })\<close> rejects when no row has the id; it writes the
  columns of \<^verbatim>\<open>data\<close> and, the column being declared \<^verbatim>\<open>@updatedAt\<close>, the time of the
  update.\<close>

definition inviteCode_update ::
  "(dbop \<Rightarrow> bool) \<Rightarrow> int \<Rightarrow> jsval \<Rightarrow> bool \<Rightarrow> store \<Rightarrow> exn + InviteCode \<times> store" where
  "inviteCode_update fails t i isUsed s =
     (case whereString i of
        Inl e \<Rightarrow> Inl e
      | Inr k \<Rightarrow>
          if fails InviteCodeUpdate then Inl ConnectionError
          else (case find (\<lambda>c. ic_id c = k) (inviteCodes s) of
                  None \<Rightarrow> Inl RecordNotFound
                | Some c \<Rightarrow>
                    (let row = c\<lparr>ic_isUsed := isUsed, ic_updatedAt := t\<rparr>
                     in Inr (row, s\<lparr>inviteCodes :=
                                     map (\<lambda>r. if ic_id r = k then row else r) (inviteCodes s)\<rparr>))))"

definition accessCode_update ::
  "(dbop \<Rightarrow> bool) \<Rightarrow> int \<Rightarrow> jsval \<Rightarrow> bool \<Rightarrow> store \<Rightarrow> exn + AccessCode \<times> store" where
  "accessCode_update fails t i isActive s =
     (case whereString i of
        Inl e \<Rightarrow> Inl e
      | Inr k \<Rightarrow>
          if fails AccessCodeUpdate then Inl ConnectionError
          else (case find (\<lambda>c. ac_id c = k) (accessCodes s) of
                  None \<Rightarrow> Inl RecordNotFound
                | Some c \<Rightarrow>
                    (let row = c\<lparr>ac_isActive := isActive, ac_updatedAt := t\<rparr>
                     in Inr (row, s\<lparr>accessCodes :=
                                     map (\<lambda>r. if ac_id r = k then row else r) (accessCodes s)\<rparr>))))"

section \<open>What the handlers are given\<close>

text \<open>
  The capabilities the route files import or call, and the state of the world at the
  request. \<open>checkUserPermission\<close>, \<open>generateInviteCode\<close>, \<open>getAllUsers\<close> and the three
  \<open>updateUser...\<close> functions are code of the application outside these files;
  \<open>execAsync\<close>, \<open>bcrypt_hash\<close>, \<open>parseInt\<close>, \<open>newDate\<close> (\<open>None\<close> is an invalid date) and
  \<open>cuid\<close> belong to the platform and its libraries; \<open>insensitiveEquals\<close> is the database's
  case-insensitive comparison of a stored user name with a requested one; \<open>findManyCodes\<close>
  answers the paged listing query of the code tables; \<open>dbFails\<close> names the statements that fail for a reason
  outside the store; \<open>now\<close> is the clock.
\<close>

datatype exec_result =
    Resolved jsstring jsstring
  | Rejected string jsstring jsstring

record command =
  cmd :: string
  cwd :: string
  timeout :: nat

record GetAllUsersOptions =
  opt_includeStats :: bool
  opt_role :: "string option"
  opt_isActive :: "bool option"
  opt_limit :: "int option"
  opt_offset :: "int option"

record env =
  checkUserPermission :: "jsval \<Rightarrow> string \<Rightarrow> bool"
  execAsync :: "command \<Rightarrow> exec_result"
  process_cwd :: string
  dbFails :: "dbop \<Rightarrow> bool"
  now :: int
  cuid :: "dbop \<Rightarrow> string"
  insensitiveEquals :: "string \<Rightarrow> string \<Rightarrow> bool"
  generateInviteCode :: string
  bcrypt_hash :: "string \<Rightarrow> nat \<Rightarrow> string"
  parseInt :: "string \<Rightarrow> int option"
  newDate :: "jsval \<Rightarrow> int option"
  findManyCodes :: "dbop \<Rightarrow> int option \<Rightarrow> int option \<Rightarrow> store \<Rightarrow> exn + jsval"
  getAllUsers :: "GetAllUsersOptions \<Rightarrow> store \<Rightarrow> (exn + jsval) \<times> store"
  updateUserStatus :: "jsval \<Rightarrow> jsval \<Rightarrow> store \<Rightarrow> (exn + jsval) \<times> store"
  updateUserAccessCodePermission :: "jsval \<Rightarrow> jsval \<Rightarrow> store \<Rightarrow> (exn + jsval) \<times> store"
  updateUserPermissions :: "jsval \<Rightarrow> jsval \<Rightarrow> store \<Rightarrow> (exn + jsval) \<times> store"

text \<open>\<^verbatim>\<open>searchParams.get(k) || d\<close>.\<close>

definition orDefault :: "string option \<Rightarrow> string \<Rightarrow> string" where
  "orDefault v d = (case v of None \<Rightarrow> d | Some x \<Rightarrow> if x = [] then d else x)"

section \<open>The database-reset endpoint\<close>

text \<open>The message of the confirmation error; \<open>CHR 0x22\<close> is the double quote.\<close>

definition invalidConfirmation :: string where
  "invalidConfirmation =
     ''Invalid confirmation text. Please type '' @ [CHR 0x22] @ ''RESET DATABASE'' @ [CHR 0x22]
       @ '' exactly.''"

text \<open>The two commands of the reset, with the options the handler passes to
  \<open>execAsync\<close>: the project root as working directory and a timeout of 30000 ms.\<close>

definition resetCommand :: "env \<Rightarrow> command" where
  "resetCommand e = \<lparr>cmd = ''npm run db:reset'', cwd = process_cwd e, timeout = 30000\<rparr>"

definition seedCommand :: "env \<Rightarrow> command" where
  "seedCommand e = \<lparr>cmd = ''npm run db:seed'', cwd = process_cwd e, timeout = 30000\<rparr>"

text \<open>The inner \<^verbatim>\<open>try\<close> of the POST handler. \<^verbatim>\<open>execAsync(cmd, { cwd, timeout })\<close> either
  resolves with the captured output or rejects with an error that carries its message and
  the output captured so far; a rejection leaves the block at once. The second component
  lists the commands that were started, in order.\<close>

definition reset_then_seed :: "env \<Rightarrow> response \<times> command list" where
  "reset_then_seed e =
     (case execAsync e (resetCommand e) of
        Rejected m out err \<Rightarrow> (json (ExecFailure m out err) 500, [resetCommand e])
      | Resolved resetOutput resetError \<Rightarrow>
          (case execAsync e (seedCommand e) of
             Rejected m out err \<Rightarrow>
               (json (ExecFailure m out err) 500, [resetCommand e, seedCommand e])
           | Resolved seedOutput seedError \<Rightarrow>
               (json (ResetDone (trim resetOutput) (trim seedOutput)) 200,
                [resetCommand e, seedCommand e])))"

text \<open>POST /api/admin/database-reset. \<open>None\<close> is a body that \<^verbatim>\<open>request.json()\<close>
  rejects; a body that parses to null makes the destructuring throw; both reach the outer
  \<^verbatim>\<open>catch\<close>. The same holds for the other handlers that read a body.\<close>

definition POST_database_reset :: "env \<Rightarrow> jsval option \<Rightarrow> response \<times> command list" where
  "POST_database_reset e request =
     (case request of
        None \<Rightarrow> (json (Error ''Failed to reset database'') 500, [])
      | Some JNull \<Rightarrow> (json (Error ''Failed to reset database'') 500, [])
      | Some data \<Rightarrow>
          (let adminUserId = getProp data ''adminUserId'';
               confirmText = getProp data ''confirmText''
           in if \<not> truthy adminUserId then
                (json (Error ''adminUserId is required'') 400, [])
              else if \<not> checkUserPermission e adminUserId ''admin_panel'' then
                (json (Error ''Access denied'') 403, [])
              else if \<not> strict_eq confirmText (JStr ''RESET DATABASE'') then
                (json (Error invalidConfirmation) 400, [])
              else reset_then_seed e))"

text \<open>GET /api/admin/database-reset. A query parameter is a string or absent.\<close>

definition GET_database_reset ::
  "env \<Rightarrow> (string \<Rightarrow> string option) \<Rightarrow> response \<times> command list" where
  "GET_database_reset e searchParams =
     (let adminUserId = orDefault (searchParams ''adminUserId'') []
      in if adminUserId = [] then (json (Error ''adminUserId is required'') 400, [])
         else if \<not> checkUserPermission e (JStr adminUserId) ''admin_panel'' then
           (json (Error ''Access denied'') 403, [])
         else (json ResetInfo 200, []))"

section \<open>The users endpoint\<close>

definition GET_users :: "env \<Rightarrow> (string \<Rightarrow> string option) \<Rightarrow> store \<Rightarrow> response \<times> store" where
  "GET_users e searchParams s =
     (let adminUserId = orDefault (searchParams ''adminUserId'') [];
          includeStats = (searchParams ''includeStats'' = Some ''true'');
          role = searchParams ''role'';
          isActive = searchParams ''isActive'';
          limit = parseInt e (orDefault (searchParams ''limit'') ''50'');
          offset = parseInt e (orDefault (searchParams ''offset'') ''0'')
      in if adminUserId = [] then (json (Error ''adminUserId is required'') 400, s)
         else if \<not> checkUserPermission e (JStr adminUserId) ''admin_panel'' then
           (json (Error ''Access denied'') 403, s)
         else
           (case getAllUsers e
                   \<lparr>opt_includeStats = includeStats,
                    opt_role = (case role of None \<Rightarrow> None
                                | Some r \<Rightarrow> if r = [] then None else Some r),
                    opt_isActive = map_option (\<lambda>v. v = ''true'') isActive,
                    opt_limit = limit, opt_offset = offset\<rparr> s of
              (Inl x, s') \<Rightarrow> (json (Error ''Failed to fetch users'') 500, s')
            | (Inr v, s') \<Rightarrow> (json (Payload v) 200, s')))"

text \<open>The three statements that follow the lookup in the POST handler. They are not in a
  transaction: when one rejects, the rows written before it stay. The data object of the
  permission row is the one the handler writes.\<close>

definition createUserRows ::
  "env \<Rightarrow> jsval \<Rightarrow> jsval \<Rightarrow> string \<Rightarrow> jsval \<Rightarrow> store \<Rightarrow> response \<times> store" where
  "createUserRows e username email hashedPassword r s =
     (case user_create (dbFails e) (cuid e UserCreate) (now e) username email hashedPassword r s of
        Inl x \<Rightarrow> (json (Error ''Failed to create user'') 500, s)
      | Inr (user, s1) \<Rightarrow>
          (case userSettings_create (dbFails e) (cuid e UserSettingsCreate) (now e) (user_id user) s1 of
             Inl x \<Rightarrow> (json (Error ''Failed to create user'') 500, s1)
           | Inr s2 \<Rightarrow>
               (let created = json (UserSummary (user_id user) (user_username user) (user_email user)
                                      (user_role user) (user_isActive user)) 201
                in if \<not> strict_eq r (JStr ''ADMIN'') then
                     (case userPermission_create (dbFails e) (cuid e UserPermissionCreate) (now e)
                             [(''userId'', JStr (user_id user)), (''allowedModelIds'', JNull),
                              (''tokenLimit'', JNull), (''canShareAccess'', JBool True),
                              (''isActive'', JBool True)] s2 of
                        Inl x \<Rightarrow> (json (Error ''Failed to create user'') 500, s2)
                      | Inr s3 \<Rightarrow> (created, s3))
                   else (created, s2))))"

definition POST_users :: "env \<Rightarrow> jsval option \<Rightarrow> store \<Rightarrow> response \<times> store" where
  "POST_users e request s =
     (case request of
        None \<Rightarrow> (json (Error ''Failed to create user'') 500, s)
      | Some JNull \<Rightarrow> (json (Error ''Failed to create user'') 500, s)
      | Some data \<Rightarrow>
          (let adminUserId = getProp data ''adminUserId'';
               username = getProp data ''username'';
               email = getProp data ''email'';
               password = getProp data ''password'';
               r = (case getProp data ''role'' of JUndefined \<Rightarrow> JStr ''USER'' | v \<Rightarrow> v)
           in if \<not> truthy adminUserId \<or> \<not> truthy username then
                (json (Error ''adminUserId and username are required'') 400, s)
              else if \<not> truthy password then
                (json (Error ''Password is required'') 400, s)
              else if \<not> checkUserPermission e adminUserId ''admin_panel'' then
                (json (Error ''Access denied'') 403, s)
              else
                (case user_findFirst (dbFails e) (insensitiveEquals e) username email s of
                   Inl x \<Rightarrow> (json (Error ''Failed to create user'') 500, s)
                 | Inr (Some existingUser) \<Rightarrow> (json UserExists 400, s)
                 | Inr None \<Rightarrow>
                     (case password of
                        JStr p \<Rightarrow> createUserRows e username email (bcrypt_hash e p 12) r s
                      | _ \<Rightarrow> (json (Error ''Failed to create user'') 500, s)))))"

text \<open>The result of a function of the admin library, as the PATCH handler returns it.\<close>

definition libResult :: "(exn + jsval) \<times> store \<Rightarrow> response \<times> store" where
  "libResult r =
     (case r of
        (Inl x, s') \<Rightarrow> (json (Error ''Failed to update user'') 500, s')
      | (Inr v, s') \<Rightarrow> (json (Payload v) 200, s'))"

definition PATCH_users :: "env \<Rightarrow> jsval option \<Rightarrow> store \<Rightarrow> response \<times> store" where
  "PATCH_users e request s =
     (case request of
        None \<Rightarrow> (json (Error ''Failed to update user'') 500, s)
      | Some JNull \<Rightarrow> (json (Error ''Failed to update user'') 500, s)
      | Some data \<Rightarrow>
          (let adminUserId = getProp data ''adminUserId'';
               userId = getProp data ''userId'';
               action = getProp data ''action'';
               updateData = rest_of [''adminUserId'', ''userId'', ''action''] data
           in if \<not> truthy adminUserId \<or> \<not> truthy userId \<or> \<not> truthy action then
                (json (Error ''adminUserId, userId, and action are required'') 400, s)
              else if \<not> checkUserPermission e adminUserId ''admin_panel'' then
                (json (Error ''Access denied'') 403, s)
              else if strict_eq action (JStr ''updateStatus'') then
                (if strict_eq adminUserId userId \<and> \<not> truthy (getProp updateData ''isActive'') then
                   (json (Error ''Cannot ban your own account'') 400, s)
                 else libResult (updateUserStatus e userId (getProp updateData ''isActive'') s))
              else if strict_eq action (JStr ''updateAccessCodePermission'') then
                libResult (updateUserAccessCodePermission e userId
                             (getProp updateData ''canShareAccessCode'') s)
              else if strict_eq action (JStr ''updatePermissions'') then
                libResult (updateUserPermissions e userId updateData s)
              else (json (Error ''Invalid action'') 400, s)))"

text \<open>The body of the transaction of the DELETE handler, statement by statement.\<close>

definition deleteUserSteps :: "jsval \<Rightarrow> (dbop \<times> (store \<Rightarrow> exn + store)) list" where
  "deleteUserSteps userId =
     [(MessageDeleteMany, message_deleteMany userId),
      (ConversationDeleteMany, conversation_deleteMany userId),
      (TokenUsageDeleteMany, tokenUsage_deleteMany userId),
      (UserPermissionDeleteMany, userPermission_deleteMany userId),
      (InviteCodeDeleteMany, inviteCode_deleteMany userId),
      (AccessCodeDeleteMany, accessCode_deleteMany userId),
      (UserDelete, user_delete userId)]"

text \<open>DELETE /api/admin/users. The third component is the journal of the statements
  issued inside the transaction.\<close>

definition DELETE_users ::
  "env \<Rightarrow> jsval option \<Rightarrow> store \<Rightarrow> response \<times> store \<times> dbop list" where
  "DELETE_users e request s =
     (case request of
        None \<Rightarrow> (json (Error ''Failed to delete user'') 500, s, [])
      | Some JNull \<Rightarrow> (json (Error ''Failed to delete user'') 500, s, [])
      | Some data \<Rightarrow>
          (let adminUserId = getProp data ''adminUserId'';
               userId = getProp data ''userId''
           in if \<not> truthy adminUserId \<or> \<not> truthy userId then
                (json (Error ''adminUserId and userId are required'') 400, s, [])
              else if \<not> checkUserPermission e adminUserId ''admin_panel'' then
                (json (Error ''Access denied'') 403, s, [])
              else if strict_eq adminUserId userId then
                (json (Error ''Cannot delete your own account'') 400, s, [])
              else
                (case user_findUnique (dbFails e) userId s of
                   Inl x \<Rightarrow> (json (Error ''Failed to delete user'') 500, s, [])
                 | Inr None \<Rightarrow> (json (Error ''User not found'') 404, s, [])
                 | Inr (Some userToDelete) \<Rightarrow>
                     (case transaction (runSteps (dbFails e) (deleteUserSteps userId)) s of
                        (Some x, s', j) \<Rightarrow> (json (Error ''Failed to delete user'') 500, s', j)
                      | (None, s', j) \<Rightarrow> (json (Success ''User deleted successfully'') 200, s', j)))))"

section \<open>The codes endpoint\<close>

definition GET_codes :: "env \<Rightarrow> (string \<Rightarrow> string option) \<Rightarrow> store \<Rightarrow> response \<times> store" where
  "GET_codes e searchParams s =
     (let adminUserId = orDefault (searchParams ''adminUserId'') [];
          type = orDefault (searchParams ''type'') ''invite'';
          limit = parseInt e (orDefault (searchParams ''limit'') ''50'');
          offset = parseInt e (orDefault (searchParams ''offset'') ''0'')
      in if adminUserId = [] then (json (Error ''adminUserId is required'') 400, s)
         else if \<not> checkUserPermission e (JStr adminUserId) ''admin_panel'' then
           (json (Error ''Access denied'') 403, s)
         else if type = ''invite'' then
           (case findManyCodes e InviteCodeFindMany limit offset s of
              Inl x \<Rightarrow> (json (Error ''Failed to fetch codes'') 500, s)
            | Inr v \<Rightarrow> (json (Payload v) 200, s))
         else if type = ''access'' then
           (case findManyCodes e AccessCodeFindMany limit offset s of
              Inl x \<Rightarrow> (json (Error ''Failed to fetch codes'') 500, s)
            | Inr v \<Rightarrow> (json (Payload v) 200, s))
         else (json (Error ''Invalid type parameter'') 400, s))"

text \<open>\<^verbatim>\<open>expiresAt ? new Date(expiresAt) : null\<close>.\<close>

definition expiresAtArg :: "env \<Rightarrow> jsval \<Rightarrow> dateArg" where
  "expiresAtArg e expiresAt =
     (if truthy expiresAt
      then (case newDate e expiresAt of None \<Rightarrow> DInvalid | Some t \<Rightarrow> DValid t)
      else DNull)"

definition POST_codes :: "env \<Rightarrow> jsval option \<Rightarrow> store \<Rightarrow> response \<times> store" where
  "POST_codes e request s =
     (case request of
        None \<Rightarrow> (json (Error ''Failed to create code'') 500, s)
      | Some JNull \<Rightarrow> (json (Error ''Failed to create code'') 500, s)
      | Some data \<Rightarrow>
          (let adminUserId = getProp data ''adminUserId'';
               type = getProp data ''type'';
               maxUses = getProp data ''maxUses'';
               expiresAt = getProp data ''expiresAt''
           in if \<not> truthy adminUserId \<or> \<not> truthy type then
                (json (Error ''adminUserId and type are required'') 400, s)
              else if \<not> checkUserPermission e adminUserId ''admin_panel'' then
                (json (Error ''Access denied'') 403, s)
              else if strict_eq type (JStr ''invite'') then
                (case inviteCode_create (dbFails e) (cuid e InviteCodeCreate) (now e)
                        (generateInviteCode e) (if truthy maxUses then maxUses else JNum 1)
                        (expiresAtArg e expiresAt) adminUserId s of
                   Inl x \<Rightarrow> (json (Error ''Failed to create code'') 500, s)
                 | Inr ((inviteCode, creator), s') \<Rightarrow> (json (InviteCodeBody inviteCode creator) 200, s'))
              else if strict_eq type (JStr ''access'') then
                (case accessCode_create (dbFails e) (cuid e AccessCodeCreate) (now e)
                        (generateInviteCode e) (expiresAtArg e expiresAt) adminUserId s of
                   Inl x \<Rightarrow> (json (Error ''Failed to create code'') 500, s)
                 | Inr ((accessCode, creator), s') \<Rightarrow> (json (AccessCodeBody accessCode creator) 200, s'))
              else (json (Error ''Invalid type parameter'') 400, s)))"

definition DELETE_codes :: "env \<Rightarrow> jsval option \<Rightarrow> store \<Rightarrow> response \<times> store" where
  "DELETE_codes e request s =
     (case request of
        None \<Rightarrow> (json (Error ''Failed to delete code'') 500, s)
      | Some JNull \<Rightarrow> (json (Error ''Failed to delete code'') 500, s)
      | Some data \<Rightarrow>
          (let adminUserId = getProp data ''adminUserId'';
               codeId = getProp data ''codeId'';
               type = getProp data ''type''
           in if \<not> truthy adminUserId \<or> \<not> truthy codeId \<or> \<not> truthy type then
                (json (Error ''adminUserId, codeId, and type are required'') 400, s)
              else if \<not> checkUserPermission e adminUserId ''admin_panel'' then
                (json (Error ''Access denied'') 403, s)
              else if strict_eq type (JStr ''invite'') then
                (case inviteCode_delete (dbFails e) codeId s of
                   Inl x \<Rightarrow> (json (Error ''Failed to delete code'') 500, s)
                 | Inr s' \<Rightarrow> (json (Success ''Code deleted successfully'') 200, s'))
              else if strict_eq type (JStr ''access'') then
                (case accessCode_delete (dbFails e) codeId s of
                   Inl x \<Rightarrow> (json (Error ''Failed to delete code'') 500, s)
                 | Inr s' \<Rightarrow> (json (Success ''Code deleted successfully'') 200, s'))
              else (json (Error ''Invalid type parameter'') 400, s)))"

definition toggleInviteCode :: "env \<Rightarrow> jsval \<Rightarrow> store \<Rightarrow> response \<times> store" where
  "toggleInviteCode e codeId s =
     (case inviteCode_findUnique (dbFails e) codeId s of
        Inl x \<Rightarrow> (json (Error ''Failed to update code'') 500, s)
      | Inr None \<Rightarrow> (json (Error ''Invite code not found'') 404, s)
      | Inr (Some inviteCode) \<Rightarrow>
          (case inviteCode_update (dbFails e) (now e) codeId (\<not> ic_isUsed inviteCode) s of
             Inl x \<Rightarrow> (json (Error ''Failed to update code'') 500, s)
           | Inr (result, s') \<Rightarrow> (json (InviteCodeBody result None) 200, s')))"

definition toggleAccessCode :: "env \<Rightarrow> jsval \<Rightarrow> store \<Rightarrow> response \<times> store" where
  "toggleAccessCode e codeId s =
     (case accessCode_findUnique (dbFails e) codeId s of
        Inl x \<Rightarrow> (json (Error ''Failed to update code'') 500, s)
      | Inr None \<Rightarrow> (json (Error ''Access code not found'') 404, s)
      | Inr (Some accessCode) \<Rightarrow>
          (case accessCode_update (dbFails e) (now e) codeId (\<not> ac_isActive accessCode) s of
             Inl x \<Rightarrow> (json (Error ''Failed to update code'') 500, s)
           | Inr (result, s') \<Rightarrow> (json (AccessCodeBody result None) 200, s')))"

definition PATCH_codes :: "env \<Rightarrow> jsval option \<Rightarrow> store \<Rightarrow> response \<times> store" where
  "PATCH_codes e request s =
     (case request of
        None \<Rightarrow> (json (Error ''Failed to update code'') 500, s)
      | Some JNull \<Rightarrow> (json (Error ''Failed to update code'') 500, s)
      | Some data \<Rightarrow>
          (let adminUserId = getProp data ''adminUserId'';
               codeId = getProp data ''codeId'';
               type = getProp data ''type'';
               action = getProp data ''action''
           in if \<not> truthy adminUserId \<or> \<not> truthy codeId \<or> \<not> truthy type \<or> \<not> truthy action then
                (json (Error ''adminUserId, codeId, type, and action are required'') 400, s)
              else if \<not> checkUserPermission e adminUserId ''admin_panel'' then
                (json (Error ''Access denied'') 403, s)
              else if strict_eq type (JStr ''invite'') then
                (if strict_eq action (JStr ''toggle'') then toggleInviteCode e codeId s
                 else (json (Error ''Invalid action for invite code'') 400, s))
              else if strict_eq type (JStr ''access'') then
                (if strict_eq action (JStr ''toggle'') then toggleAccessCode e codeId s
                 else (json (Error ''Invalid action for access code'') 400, s))
              else (json (Error ''Invalid type parameter'') 400, s)))"

section \<open>The title editor of the chat layout\<close>

text \<open>
  The part of the component state the title editor uses, and its handlers. Each handler
  returns the calls made to \<^verbatim>\<open>onChatTitleChange\<close>, in order, and the next state;
  \<open>hasCallback\<close> says whether the optional property was supplied.
\<close>

record title_state =
  editableTitle :: jsstring
  isEditingTitle :: bool

definition handleTitleEdit :: "jsstring \<Rightarrow> title_state \<Rightarrow> title_state" where
  "handleTitleEdit chatTitle st = st\<lparr>editableTitle := chatTitle, isEditingTitle := True\<rparr>"

definition handleTitleSave :: "bool \<Rightarrow> title_state \<Rightarrow> jsstring list \<times> title_state" where
  "handleTitleSave hasCallback st =
     (let trimmedTitle = slice0 8 (trim (editableTitle st))
      in (if hasCallback \<and> trimmedTitle \<noteq> [] then [trimmedTitle] else [],
          st\<lparr>isEditingTitle := False\<rparr>))"

definition handleTitleKeyPress :: "bool \<Rightarrow> string \<Rightarrow> title_state \<Rightarrow> jsstring list \<times> title_state" where
  "handleTitleKeyPress hasCallback key st =
     (if key = ''Enter'' then handleTitleSave hasCallback st else ([], st))"

definition onBlur :: "bool \<Rightarrow> title_state \<Rightarrow> jsstring list \<times> title_state" where
  "onBlur hasCallback st = handleTitleSave hasCallback st"

section \<open>Quota accounting\<close>

text \<open>
  The schema declares the counters of the permission row; the code that resets and
  advances them is not among the files of this development.
\<close>

datatype period = Daily | Monthly | Quarterly | Yearly

text \<open>Modelled from the spec: the four values of \<open>limitPeriod\<close> that the specification
  names. The code that reads the column is missing from the files.\<close>

definition periodOf :: "string \<Rightarrow> period option" where
  "periodOf p =
     (if p = ''daily'' then Some Daily else if p = ''monthly'' then Some Monthly
      else if p = ''quarterly'' then Some Quarterly else if p = ''yearly'' then Some Yearly
      else None)"

text \<open>Modelled from the spec: the end of the period that started at a time, for the four
  periods of the specification's reset policy (daily is 24 hours, monthly one calendar
  month, quarterly three months, yearly one year). The function that computes it is
  missing from the files; the calendar \<open>addMonths\<close>, which the specification leaves open,
  is a parameter.\<close>

definition periodEnd :: "(nat \<Rightarrow> int \<Rightarrow> int) \<Rightarrow> period \<Rightarrow> int \<Rightarrow> int" where
  "periodEnd addMonths p t =
     (case p of
        Daily \<Rightarrow> t + 24 * 60 * 60 * 1000
      | Monthly \<Rightarrow> addMonths 1 t
      | Quarterly \<Rightarrow> addMonths 3 t
      | Yearly \<Rightarrow> addMonths 12 t)"

text \<open>Modelled from the spec: the reset of the quota update, which is missing from the
  files. When the time since \<open>lastResetAt\<close> exceeds the period, the counter is zeroed and
  \<open>lastResetAt\<close> becomes the current time. A period string other than the four named
  ones, on which the specification is silent, never resets.\<close>

definition resetIfDue :: "(nat \<Rightarrow> int \<Rightarrow> int) \<Rightarrow> int \<Rightarrow> UserPermission \<Rightarrow> UserPermission" where
  "resetIfDue addMonths t perm =
     (case periodOf (up_limitPeriod perm) of
        None \<Rightarrow> perm
      | Some p \<Rightarrow>
          if periodEnd addMonths p (up_lastResetAt perm) < t
          then perm\<lparr>up_tokenUsed := 0, up_lastResetAt := t\<rparr>
          else perm)"

text \<open>Modelled from the spec: the quota update, which is missing from the files. The
  reset, when it is due, comes first; then the new usage is applied to the counter.\<close>

definition recordUsage ::
  "(nat \<Rightarrow> int \<Rightarrow> int) \<Rightarrow> int \<Rightarrow> int \<Rightarrow> UserPermission \<Rightarrow> UserPermission" where
  "recordUsage addMonths t tokens perm =
     (let p = resetIfDue addMonths t perm
      in p\<lparr>up_tokenUsed := up_tokenUsed p + tokens\<rparr>)"

section \<open>Vocabulary of the properties\<close>

text \<open>The statements of the user deletion, in the order of the source.\<close>

definition deleteOrder :: "dbop list" where
  "deleteOrder = [MessageDeleteMany, ConversationDeleteMany, TokenUsageDeleteMany,
                  UserPermissionDeleteMany, InviteCodeDeleteMany, AccessCodeDeleteMany, UserDelete]"

text \<open>No row of the tables the deletion names belongs to the user, and the user row is
  gone.\<close>

definition ownsNothing :: "string \<Rightarrow> store \<Rightarrow> bool" where
  "ownsNothing u s \<longleftrightarrow>
     (\<forall>r \<in> set (messages s). msg_userId r \<noteq> u)
   \<and> (\<forall>r \<in> set (conversations s). conv_userId r \<noteq> u)
   \<and> (\<forall>r \<in> set (tokenUsages s). tu_userId r \<noteq> u)
   \<and> (\<forall>r \<in> set (userPermissions s). up_userId r \<noteq> u)
   \<and> (\<forall>r \<in> set (inviteCodes s). ic_createdBy r \<noteq> u)
   \<and> (\<forall>r \<in> set (accessCodes s). ac_createdBy r \<noteq> u)
   \<and> (\<forall>r \<in> set (users s). user_id r \<noteq> u)"

text \<open>The statements of a list that are issued when the first failing one stops the
  sequence: those before it, and it.\<close>

definition journalUpToFailure :: "(dbop \<Rightarrow> bool) \<Rightarrow> dbop list \<Rightarrow> dbop list" where
  "journalUpToFailure f ops =
     takeWhile (\<lambda>op. \<not> f op) ops @ take 1 (dropWhile (\<lambda>op. \<not> f op) ops)"

section \<open>Sample data\<close>

text \<open>A small store, an environment and a request builder, on which the properties below
  are evaluated: an administrator \<open>admin1\<close>, the only holder of the \<open>admin_panel\<close>
  permission, and a user \<open>u2\<close> who owns one row of every dependent table.\<close>

definition sampleUser :: "string \<Rightarrow> string \<Rightarrow> UserRole \<Rightarrow> User" where
  "sampleUser i n r =
     \<lparr>user_id = i, user_email = None, user_username = Some n, user_password = None,
      user_avatar = None, user_role = r, user_isActive = True, user_canShareAccessCode = True,
      user_resetToken = None, user_resetTokenExpiry = None, user_invitedBy = None,
      user_usedInviteCode = None, user_usedAccessCode = None, user_hostUserId = None,
      user_createdAt = 0, user_updatedAt = 0\<rparr>"

definition sampleInvite :: InviteCode where
  "sampleInvite =
     \<lparr>ic_id = ''i1'', ic_code = ''fimai-aaaa'', ic_createdBy = ''u2'', ic_isUsed = False,
      ic_usedBy = None, ic_usedAt = None, ic_expiresAt = None, ic_maxUses = 1,
      ic_currentUses = 0, ic_createdAt = 0, ic_updatedAt = 0\<rparr>"

definition sampleAccess :: AccessCode where
  "sampleAccess =
     \<lparr>ac_id = ''a1'', ac_code = ''fimai-bbbb'', ac_createdBy = ''u2'', ac_isActive = True,
      ac_expiresAt = None, ac_maxUses = None, ac_currentUses = 0, ac_allowedModelIds = None,
      ac_createdAt = 0, ac_updatedAt = 0\<rparr>"

definition samplePermission :: UserPermission where
  "samplePermission =
     \<lparr>up_id = ''p1'', up_userId = ''u2'', up_permissions = [], up_limitType = ''token'',
      up_limitPeriod = ''daily'', up_tokenLimit = Some 1000, up_tokenUsed = 10,
      up_lastResetAt = 0, up_createdAt = 0, up_updatedAt = 0\<rparr>"

definition sampleStore :: store where
  "sampleStore =
     \<lparr>users = [sampleUser ''admin1'' ''root'' ADMIN, sampleUser ''u2'' ''bob'' USER],
      userSettings = [],
      userPermissions = [samplePermission],
      conversations = [\<lparr>conv_id = ''c1'', conv_userId = ''u2''\<rparr>],
      messages = [\<lparr>msg_id = ''m1'', msg_conversationId = ''c1'', msg_userId = ''u2''\<rparr>],
      tokenUsages = [\<lparr>tu_id = ''t1'', tu_userId = ''u2'', tu_conversationId = Some ''c1''\<rparr>],
      inviteCodes = [sampleInvite],
      accessCodes = [sampleAccess],
      modelGroupOrders = []\<rparr>"

text \<open>The comparison of the sample environment: \<^verbatim>\<open>ILIKE\<close> on ASCII text, for a pattern
  without escape characters. \<^verbatim>\<open>%\<close> stands for any text, \<^verbatim>\<open>_\<close> for any one character, and
  letters match in either case.\<close>

definition toLowerAscii :: "char \<Rightarrow> char" where
  "toLowerAscii c =
     (if (65::nat) \<le> of_char c \<and> of_char c \<le> (90::nat) then char_of (of_char c + (32::nat)) else c)"

fun ilike :: "string \<Rightarrow> string \<Rightarrow> bool" where
  "ilike [] [] = True"
| "ilike (c # cs) [] = False"
| "ilike [] (p # ps) = (p = CHR ''%'' \<and> ilike [] ps)"
| "ilike (c # cs) (p # ps) =
     (if p = CHR ''%'' then ilike (c # cs) ps \<or> ilike cs (p # ps)
      else (p = CHR ''_'' \<or> toLowerAscii c = toLowerAscii p) \<and> ilike cs ps)"

definition sampleEnv :: env where
  "sampleEnv =
     \<lparr>checkUserPermission = (\<lambda>u t. u = JStr ''admin1'' \<and> t = ''admin_panel''),
      execAsync = (\<lambda>c. Resolved [0x6F, 0x6B, 0x0A] []),
      process_cwd = ''/app'',
      dbFails = (\<lambda>op. False),
      now = 1000,
      cuid = (\<lambda>op. ''new1''),
      insensitiveEquals = ilike,
      generateInviteCode = ''fimai-cccc'',
      bcrypt_hash = (\<lambda>p n. ''hashed''),
      parseInt = (\<lambda>x. None),
      newDate = (\<lambda>v. None),
      findManyCodes = (\<lambda>op l off s. Inr (JArr [])),
      getAllUsers = (\<lambda>opts s. (Inr (JArr []), s)),
      updateUserStatus = (\<lambda>u v s. (Inr JNull, s)),
      updateUserAccessCodePermission = (\<lambda>u v s. (Inr JNull, s)),
      updateUserPermissions = (\<lambda>u v s. (Inr JNull, s))\<rparr>"

definition adminRequest :: "(string \<times> jsval) list \<Rightarrow> jsval" where
  "adminRequest kvs = JObj ((''adminUserId'', JStr ''admin1'') # kvs)"

section \<open>Properties\<close>

subsection \<open>Reading a request\<close>

lemma getProp_rest_of:
  "k \<notin> set ks \<Longrightarrow> getProp (rest_of ks d) k = getProp d k"
proof (cases d)
  case (JObj kvs)
  assume k: "k \<notin> set ks"
  have "map_of (filter (\<lambda>(a, v). a \<notin> set ks) kvs) k = map_of kvs k"
    using k by (induction kvs) auto
  with JObj show ?thesis by simp
qed simp_all

lemma strict_eq_JStr [simp]: "strict_eq v (JStr x) = (v = JStr x)"
  by (cases v) auto

lemma strict_eq_imp_eq: "strict_eq a b \<Longrightarrow> b = a"
  by (cases a) auto

subsection \<open>The database reset\<close>

lemma POST_database_reset_passed:
  assumes "truthy (getProp data ''adminUserId'')"
    and "checkUserPermission e (getProp data ''adminUserId'') ''admin_panel''"
    and "getProp data ''confirmText'' = JStr ''RESET DATABASE''"
  shows "POST_database_reset e (Some data) = reset_then_seed e"
proof -
  have n: "data \<noteq> JNull" using assms(1) by auto
  show ?thesis using assms n
    by (cases data) (simp_all add: POST_database_reset_def)
qed

lemma trim_sample_output: "trim [0x6F, 0x6B, 0x0A] = [0x6F, 0x6B]"
  by (simp add: trim_def isWhiteSpace_def)

text \<open>
  C3. A reset request of a permitted administrator with the confirmation text starts
  \<^verbatim>\<open>npm run db:reset\<close> first, with a timeout of 30000 ms. If that command is rejected,
  nothing else is started and the answer is 500 with the message, stdout and stderr of the
  rejection. Otherwise \<^verbatim>\<open>npm run db:seed\<close> is started, with the same timeout; if it is
  rejected the answer is 500 with its message, stdout and stderr; if both resolve the
  answer is 200 with the (trimmed) stdout of both.
\<close>

theorem database_reset_runs_reset_then_seed:
  assumes "truthy (getProp data ''adminUserId'')"
    and "checkUserPermission e (getProp data ''adminUserId'') ''admin_panel''"
    and "getProp data ''confirmText'' = JStr ''RESET DATABASE''"
  shows "timeout (resetCommand e) = 30000 \<and> timeout (seedCommand e) = 30000
       \<and> cmd (resetCommand e) = ''npm run db:reset'' \<and> cmd (seedCommand e) = ''npm run db:seed''
       \<and> (\<forall>m out err. execAsync e (resetCommand e) = Rejected m out err \<longrightarrow>
            POST_database_reset e (Some data)
              = (\<lparr>status = 500, body = ExecFailure m out err\<rparr>, [resetCommand e]))
       \<and> (\<forall>ro re m out err.
            execAsync e (resetCommand e) = Resolved ro re \<and>
            execAsync e (seedCommand e) = Rejected m out err \<longrightarrow>
            POST_database_reset e (Some data)
              = (\<lparr>status = 500, body = ExecFailure m out err\<rparr>, [resetCommand e, seedCommand e]))
       \<and> (\<forall>ro re so se.
            execAsync e (resetCommand e) = Resolved ro re \<and>
            execAsync e (seedCommand e) = Resolved so se \<longrightarrow>
            POST_database_reset e (Some data)
              = (\<lparr>status = 200, body = ResetDone (trim ro) (trim so)\<rparr>,
                 [resetCommand e, seedCommand e]))"
  unfolding POST_database_reset_passed [OF assms]
  by (simp add: reset_then_seed_def json_def resetCommand_def seedCommand_def)

theorem database_reset_runs_reset_then_seed_witness:
  "POST_database_reset sampleEnv
     (Some (adminRequest [(''confirmText'', JStr ''RESET DATABASE'')]))
   = (\<lparr>status = 200, body = ResetDone [0x6F, 0x6B] [0x6F, 0x6B]\<rparr>,
      [\<lparr>cmd = ''npm run db:reset'', cwd = ''/app'', timeout = 30000\<rparr>,
       \<lparr>cmd = ''npm run db:seed'', cwd = ''/app'', timeout = 30000\<rparr>])
   \<and> POST_database_reset (sampleEnv\<lparr>execAsync := (\<lambda>c. Rejected ''Command failed'' [] [0x65])\<rparr>)
     (Some (adminRequest [(''confirmText'', JStr ''RESET DATABASE'')]))
   = (\<lparr>status = 500, body = ExecFailure ''Command failed'' [] [0x65]\<rparr>,
      [\<lparr>cmd = ''npm run db:reset'', cwd = ''/app'', timeout = 30000\<rparr>])"
proof -
  let ?d = "adminRequest [(''confirmText'', JStr ''RESET DATABASE'')]"
  let ?e2 = "sampleEnv\<lparr>execAsync := (\<lambda>c. Rejected ''Command failed'' [] [0x65])\<rparr>"
  have a: "truthy (getProp ?d ''adminUserId'')" by (simp add: adminRequest_def)
  have b: "checkUserPermission sampleEnv (getProp ?d ''adminUserId'') ''admin_panel''"
    by (simp add: adminRequest_def sampleEnv_def)
  have b2: "checkUserPermission ?e2 (getProp ?d ''adminUserId'') ''admin_panel''"
    by (simp add: adminRequest_def sampleEnv_def)
  have c: "getProp ?d ''confirmText'' = JStr ''RESET DATABASE''" by (simp add: adminRequest_def)
  have x1: "execAsync sampleEnv (resetCommand sampleEnv) = Resolved [0x6F, 0x6B, 0x0A] []"
    and x2: "execAsync sampleEnv (seedCommand sampleEnv) = Resolved [0x6F, 0x6B, 0x0A] []"
    by (simp_all add: sampleEnv_def)
  have x3: "execAsync ?e2 (resetCommand ?e2) = Rejected ''Command failed'' [] [0x65]"
    by simp
  have r: "resetCommand ?e2 = \<lparr>cmd = ''npm run db:reset'', cwd = ''/app'', timeout = 30000\<rparr>"
    "resetCommand sampleEnv = \<lparr>cmd = ''npm run db:reset'', cwd = ''/app'', timeout = 30000\<rparr>"
    "seedCommand sampleEnv = \<lparr>cmd = ''npm run db:seed'', cwd = ''/app'', timeout = 30000\<rparr>"
    by (simp_all add: resetCommand_def seedCommand_def sampleEnv_def)
  from database_reset_runs_reset_then_seed [OF a b c] x1 x2
  have "POST_database_reset sampleEnv (Some ?d)
     = (\<lparr>status = 200, body = ResetDone (trim [0x6F, 0x6B, 0x0A]) (trim [0x6F, 0x6B, 0x0A])\<rparr>,
        [resetCommand sampleEnv, seedCommand sampleEnv])"
    by blast
  moreover from database_reset_runs_reset_then_seed [OF a b2 c] x3
  have "POST_database_reset ?e2 (Some ?d)
     = (\<lparr>status = 500, body = ExecFailure ''Command failed'' [] [0x65]\<rparr>, [resetCommand ?e2])"
    by blast
  ultimately show ?thesis by (simp only: trim_sample_output r)
qed

text \<open>
  C8. A reset request of a permitted administrator whose \<^verbatim>\<open>confirmText\<close> is anything but
  the string \<^verbatim>\<open>RESET DATABASE\<close> (another string, another type, or missing) is answered 400,
  and no shell command is started.
\<close>

theorem database_reset_requires_confirmation:
  assumes "truthy (getProp data ''adminUserId'')"
    and "checkUserPermission e (getProp data ''adminUserId'') ''admin_panel''"
    and "getProp data ''confirmText'' \<noteq> JStr ''RESET DATABASE''"
  shows "POST_database_reset e (Some data)
           = (\<lparr>status = 400, body = Error invalidConfirmation\<rparr>, [])"
proof -
  have n: "data \<noteq> JNull" using assms(1) by auto
  show ?thesis using assms n
    by (cases data) (simp_all add: POST_database_reset_def json_def)
qed

theorem database_reset_requires_confirmation_witness:
  "POST_database_reset sampleEnv (Some (adminRequest [(''confirmText'', JStr ''reset database'')]))
     = (\<lparr>status = 400, body = Error invalidConfirmation\<rparr>, [])"
proof -
  let ?d = "adminRequest [(''confirmText'', JStr ''reset database'')]"
  have a: "truthy (getProp ?d ''adminUserId'')" by (simp add: adminRequest_def)
  have b: "checkUserPermission sampleEnv (getProp ?d ''adminUserId'') ''admin_panel''"
    by (simp add: adminRequest_def sampleEnv_def)
  have c: "getProp ?d ''confirmText'' \<noteq> JStr ''RESET DATABASE''" by (simp add: adminRequest_def)
  from database_reset_requires_confirmation [OF a b c] show ?thesis .
qed

subsection \<open>Guards of the users endpoint\<close>

text \<open>
  C7. A permitted administrator who names their own account (\<^verbatim>\<open>adminUserId === userId\<close>)
  is answered 400 by PATCH with action \<^verbatim>\<open>updateStatus\<close> and \<^verbatim>\<open>isActive\<close> false, and by
  DELETE; in both cases the store is returned as it was, and DELETE issues no statement of
  its transaction.
\<close>

theorem admin_cannot_disable_or_delete_self:
  assumes "truthy adminUserId"
    and "checkUserPermission e adminUserId ''admin_panel''"
    and "getProp data ''adminUserId'' = adminUserId"
    and "strict_eq adminUserId (getProp data ''userId'')"
  shows "(getProp data ''action'' = JStr ''updateStatus'' \<and> getProp data ''isActive'' = JBool False
            \<longrightarrow> PATCH_users e (Some data) s
                  = (\<lparr>status = 400, body = Error ''Cannot ban your own account''\<rparr>, s))
       \<and> DELETE_users e (Some data) s
            = (\<lparr>status = 400, body = Error ''Cannot delete your own account''\<rparr>, s, [])"
proof -
  have n: "data \<noteq> JNull" using assms(1,3) by auto
  have u: "getProp data ''userId'' = adminUserId"
    using assms(4) by (rule strict_eq_imp_eq)
  have r: "getProp (rest_of [''adminUserId'', ''userId'', ''action''] data) ''isActive''
             = getProp data ''isActive''"
    by (rule getProp_rest_of) simp
  have p: "getProp data ''action'' = JStr ''updateStatus'' \<and> getProp data ''isActive'' = JBool False
            \<longrightarrow> PATCH_users e (Some data) s
                  = (\<lparr>status = 400, body = Error ''Cannot ban your own account''\<rparr>, s)"
    using assms n u r
    by (cases data) (simp_all add: PATCH_users_def json_def Let_def del: rest_of.simps)
  have d: "DELETE_users e (Some data) s
            = (\<lparr>status = 400, body = Error ''Cannot delete your own account''\<rparr>, s, [])"
    using assms n u
    by (cases data) (simp_all add: DELETE_users_def json_def Let_def)
  from p d show ?thesis by blast
qed

theorem admin_cannot_disable_or_delete_self_witness:
  "PATCH_users sampleEnv
     (Some (adminRequest [(''userId'', JStr ''admin1''), (''action'', JStr ''updateStatus''),
                          (''isActive'', JBool False)])) sampleStore
     = (\<lparr>status = 400, body = Error ''Cannot ban your own account''\<rparr>, sampleStore)
   \<and> DELETE_users sampleEnv
     (Some (adminRequest [(''userId'', JStr ''admin1''), (''action'', JStr ''updateStatus''),
                          (''isActive'', JBool False)])) sampleStore
     = (\<lparr>status = 400, body = Error ''Cannot delete your own account''\<rparr>, sampleStore, [])"
proof -
  let ?d = "adminRequest [(''userId'', JStr ''admin1''), (''action'', JStr ''updateStatus''),
                          (''isActive'', JBool False)]"
  have a: "truthy (JStr ''admin1'')" by simp
  have b: "checkUserPermission sampleEnv (JStr ''admin1'') ''admin_panel''"
    by (simp add: sampleEnv_def)
  have c: "getProp ?d ''adminUserId'' = JStr ''admin1''" by (simp add: adminRequest_def)
  have d: "strict_eq (JStr ''admin1'') (getProp ?d ''userId'')" by (simp add: adminRequest_def)
  have f: "getProp ?d ''action'' = JStr ''updateStatus'' \<and> getProp ?d ''isActive'' = JBool False"
    by (simp add: adminRequest_def)
  from admin_cannot_disable_or_delete_self [OF a b c d, of sampleStore] f show ?thesis by blast
qed

subsection \<open>The title editor\<close>

text \<open>
  C9, as the specification words it, fails on a title that is empty after trimming: the handler
  then makes no call at all.
\<close>

theorem title_save_blank_counterexample:
  "fst (handleTitleSave True \<lparr>editableTitle = [0x20, 0x20], isEditingTitle = True\<rparr>)
     \<noteq> [slice0 8 (trim [0x20, 0x20])]"
  by (simp add: handleTitleSave_def slice0_def trim_def isWhiteSpace_def)

text \<open>
  C9, amended. Blur and the Enter key both run the save. When the callback is supplied and
  the title, trimmed and cut to its first 8 code units, is not empty, the callback is
  called exactly once, with that text, which has at most 8 code units; otherwise the
  callback is not called.
\<close>

theorem title_save_trims_and_truncates:
  "fst (onBlur hasCallback st) = fst (handleTitleSave hasCallback st)
   \<and> fst (handleTitleKeyPress hasCallback ''Enter'' st) = fst (handleTitleSave hasCallback st)
   \<and> (hasCallback \<and> slice0 8 (trim (editableTitle st)) \<noteq> []
        \<longrightarrow> fst (handleTitleSave hasCallback st) = [slice0 8 (trim (editableTitle st))])
   \<and> (\<not> hasCallback \<or> slice0 8 (trim (editableTitle st)) = []
        \<longrightarrow> fst (handleTitleSave hasCallback st) = [])
   \<and> length (slice0 8 (trim (editableTitle st))) \<le> 8"
  by (simp add: onBlur_def handleTitleKeyPress_def handleTitleSave_def slice0_def Let_def)

theorem title_save_trims_and_truncates_witness:
  "fst (handleTitleSave True
          \<lparr>editableTitle = [0x20, 0x61, 0x62, 0x63, 0x64, 0x65, 0x66, 0x67, 0x68, 0x69, 0x20],
           isEditingTitle = True\<rparr>)
     = [[0x61, 0x62, 0x63, 0x64, 0x65, 0x66, 0x67, 0x68]]"
proof -
  let ?st = "\<lparr>editableTitle =
                [0x20, 0x61, 0x62, 0x63, 0x64, 0x65, 0x66, 0x67, 0x68, 0x69, 0x20 :: 16 word],
              isEditingTitle = True\<rparr>"
  have t: "slice0 8 (trim (editableTitle ?st)) = [0x61, 0x62, 0x63, 0x64, 0x65, 0x66, 0x67, 0x68]"
    by (simp add: slice0_def trim_def isWhiteSpace_def)
  from title_save_trims_and_truncates [of True ?st] show ?thesis unfolding t by simp
qed

subsection \<open>Creating a user\<close>

text \<open>With the comparison of the sample environment, a requested user name \<^verbatim>\<open>b_b\<close> meets
  the stored \<^verbatim>\<open>bob\<close>, and the handler answers that the name is taken.\<close>

lemma ilike_wildcard: "ilike ''bob'' ''b_b'' \<and> ilike ''bob'' ''B%'' \<and> \<not> ilike ''bob'' ''b_''"
  by code_simp

lemma POST_users_wildcard_username:
  "POST_users sampleEnv
     (Some (adminRequest [(''username'', JStr ''b_b''), (''password'', JStr ''secret'')])) sampleStore
   = (\<lparr>status = 400, body = UserExists\<rparr>, sampleStore)"
  by (simp add: POST_users_def adminRequest_def sampleEnv_def sampleStore_def sampleUser_def
        user_findFirst_def json_def toLowerAscii_def)

subsection \<open>Creating an invite code\<close>

lemma truncToInt_of_int [simp]: "truncToInt (of_int n) = n"
  by (simp add: truncToInt_def)

lemma truncToInt_one [simp]: "truncToInt 1 = 1"
  using truncToInt_of_int [of 1] by simp

lemma truncToInt_half: "truncToInt (1 / 2) = 0"
proof -
  have "\<lfloor>(1::rat) / 2\<rfloor> = 0" by (rule floor_unique) simp_all
  then show ?thesis by (simp add: truncToInt_def)
qed

lemma int32Of_integer:
  "int32Of (if truthy m then m else JNum 1) = Inr k \<Longrightarrow>
     (\<forall>n. m = JNum (of_int n) \<and> n \<noteq> 0 \<longrightarrow> k = n) \<and> (\<not> truthy m \<longrightarrow> k = 1)"
  by (cases m) (auto split: if_splits)

lemma int32Of_accepts:
  "\<not> truthy m \<or> (\<exists>n. m = JNum (of_int n) \<and> - (2 ^ 31) \<le> n \<and> n < 2 ^ 31)
     \<Longrightarrow> \<exists>k. int32Of (if truthy m then m else JNum 1) = Inr k"
  by (cases "truthy m") auto

lemma dateOf_accepts:
  "\<not> truthy v \<or> newDate e v \<noteq> None \<Longrightarrow> \<exists>x. dateOf (expiresAtArg e v) = Inr x"
  by (cases "newDate e v") (auto simp: expiresAtArg_def)

lemma POST_codes_invite:
  assumes "truthy (getProp data ''adminUserId'')"
    and "checkUserPermission e (getProp data ''adminUserId'') ''admin_panel''"
    and "getProp data ''type'' = JStr ''invite''"
  shows "POST_codes e (Some data) s =
     (case inviteCode_create (dbFails e) (cuid e InviteCodeCreate) (now e) (generateInviteCode e)
             (if truthy (getProp data ''maxUses'') then getProp data ''maxUses'' else JNum 1)
             (expiresAtArg e (getProp data ''expiresAt'')) (getProp data ''adminUserId'') s of
        Inl x \<Rightarrow> (json (Error ''Failed to create code'') 500, s)
      | Inr ((inviteCode, creator), s') \<Rightarrow> (json (InviteCodeBody inviteCode creator) 200, s'))"
proof -
  have n: "data \<noteq> JNull" using assms(1) by auto
  show ?thesis using assms n
    by (cases data) (simp_all add: POST_codes_def Let_def)
qed

lemma inviteCode_create_row:
  assumes "inviteCode_create f i t c m x by s = Inr ((row, cr), s')"
  shows "inviteCodes s' = inviteCodes s @ [row] \<and> int32Of m = Inr (ic_maxUses row)"
  using assms
  by (auto simp: inviteCode_create_def Let_def split: sum.splits if_splits)

text \<open>
  C10, as the specification words it, fails on a truthy \<^verbatim>\<open>maxUses\<close> that is not an integer.
  The handler passes \<^verbatim>\<open>maxUses || 1\<close> on without asking for an integer, and the client
  cuts the fraction off: a request with 0.5 creates a code whose \<^verbatim>\<open>maxUses\<close> is 0, which
  is neither the request's value nor 1.
\<close>

theorem invite_code_fractional_maxUses_counterexample:
  "truthy (JNum (1 / 2))
   \<and> (case POST_codes sampleEnv
              (Some (adminRequest [(''type'', JStr ''invite''), (''maxUses'', JNum (1 / 2))]))
              sampleStore of
        (r, s') \<Rightarrow> status r = 200
          \<and> (\<exists>row. inviteCodes s' = [sampleInvite, row] \<and> ic_maxUses row = 0
                \<and> JNum (of_int (ic_maxUses row)) \<noteq> JNum (1 / 2) \<and> ic_maxUses row \<noteq> 1))"
  by (simp add: POST_codes_def adminRequest_def sampleEnv_def sampleStore_def sampleUser_def
        sampleInvite_def json_def inviteCode_create_def expiresAtArg_def truncToInt_half Let_def)

text \<open>
  C10, amended. For a permitted POST with type \<^verbatim>\<open>invite\<close>: whenever a code is created (the
  answer is 200), exactly one row is appended to the invite codes, and its \<^verbatim>\<open>maxUses\<close> is
  the request's \<^verbatim>\<open>maxUses\<close> when that is a truthy integer and 1 when it is falsy; in
  particular 1 when the request has 0, null or nothing. A code is created whenever the
  caller is a stored user, \<^verbatim>\<open>maxUses\<close> is falsy or a 32-bit integer, \<^verbatim>\<open>expiresAt\<close> is falsy
  or a valid date, the statement does not fail and the generated id and code are fresh.
\<close>

theorem invite_code_maxUses_defaults_to_one:
  assumes "truthy (getProp data ''adminUserId'')"
    and "checkUserPermission e (getProp data ''adminUserId'') ''admin_panel''"
    and "getProp data ''type'' = JStr ''invite''"
  shows "(\<forall>r s'. POST_codes e (Some data) s = (r, s') \<and> status r = 200 \<longrightarrow>
            (\<exists>row creator. body r = InviteCodeBody row creator
               \<and> inviteCodes s' = inviteCodes s @ [row]
               \<and> (\<forall>n. getProp data ''maxUses'' = JNum (of_int n) \<and> n \<noteq> 0 \<longrightarrow> ic_maxUses row = n)
               \<and> (\<not> truthy (getProp data ''maxUses'') \<longrightarrow> ic_maxUses row = 1)
               \<and> (getProp data ''maxUses'' \<in> {JNum 0, JNull, JUndefined} \<longrightarrow> ic_maxUses row = 1)))
       \<and> ((\<exists>a. getProp data ''adminUserId'' = JStr a \<and> find (\<lambda>u. user_id u = a) (users s) \<noteq> None)
            \<and> (\<not> truthy (getProp data ''maxUses'')
                 \<or> (\<exists>n. getProp data ''maxUses'' = JNum (of_int n) \<and> - (2 ^ 31) \<le> n \<and> n < 2 ^ 31))
            \<and> (\<not> truthy (getProp data ''expiresAt'') \<or> newDate e (getProp data ''expiresAt'') \<noteq> None)
            \<and> \<not> dbFails e InviteCodeCreate
            \<and> (\<forall>c \<in> set (inviteCodes s).
                  ic_id c \<noteq> cuid e InviteCodeCreate \<and> ic_code c \<noteq> generateInviteCode e)
           \<longrightarrow> status (fst (POST_codes e (Some data) s)) = 200)"
proof (intro conjI allI impI)
  fix r s'
  assume h: "POST_codes e (Some data) s = (r, s') \<and> status r = 200"
  let ?m = "if truthy (getProp data ''maxUses'') then getProp data ''maxUses'' else JNum 1"
  let ?c = "inviteCode_create (dbFails e) (cuid e InviteCodeCreate) (now e) (generateInviteCode e)
             ?m (expiresAtArg e (getProp data ''expiresAt'')) (getProp data ''adminUserId'') s"
  from h POST_codes_invite [OF assms, of s]
  obtain row cr where c: "?c = Inr ((row, cr), s')" and b: "body r = InviteCodeBody row cr"
    by (cases ?c) (auto simp: json_def)
  from inviteCode_create_row [OF c]
  have m: "inviteCodes s' = inviteCodes s @ [row]" and i: "int32Of ?m = Inr (ic_maxUses row)"
    by blast+
  from int32Of_integer [OF i]
  have v: "\<forall>n. getProp data ''maxUses'' = JNum (of_int n) \<and> n \<noteq> 0 \<longrightarrow> ic_maxUses row = n"
    and f: "\<not> truthy (getProp data ''maxUses'') \<longrightarrow> ic_maxUses row = 1"
    by blast+
  from f have "getProp data ''maxUses'' \<in> {JNum 0, JNull, JUndefined} \<longrightarrow> ic_maxUses row = 1"
    by auto
  with m b v f
  show "\<exists>row creator. body r = InviteCodeBody row creator
               \<and> inviteCodes s' = inviteCodes s @ [row]
               \<and> (\<forall>n. getProp data ''maxUses'' = JNum (of_int n) \<and> n \<noteq> 0 \<longrightarrow> ic_maxUses row = n)
               \<and> (\<not> truthy (getProp data ''maxUses'') \<longrightarrow> ic_maxUses row = 1)
               \<and> (getProp data ''maxUses'' \<in> {JNum 0, JNull, JUndefined} \<longrightarrow> ic_maxUses row = 1)"
    by blast
next
  assume ok: "(\<exists>a. getProp data ''adminUserId'' = JStr a \<and> find (\<lambda>u. user_id u = a) (users s) \<noteq> None)
            \<and> (\<not> truthy (getProp data ''maxUses'')
                 \<or> (\<exists>n. getProp data ''maxUses'' = JNum (of_int n) \<and> - (2 ^ 31) \<le> n \<and> n < 2 ^ 31))
            \<and> (\<not> truthy (getProp data ''expiresAt'') \<or> newDate e (getProp data ''expiresAt'') \<noteq> None)
            \<and> \<not> dbFails e InviteCodeCreate
            \<and> (\<forall>c \<in> set (inviteCodes s).
                  ic_id c \<noteq> cuid e InviteCodeCreate \<and> ic_code c \<noteq> generateInviteCode e)"
  then obtain a where a: "getProp data ''adminUserId'' = JStr a"
      "find (\<lambda>u. user_id u = a) (users s) \<noteq> None" by blast
  from ok int32Of_accepts [of "getProp data ''maxUses''"]
  obtain n where n: "int32Of (if truthy (getProp data ''maxUses'') then getProp data ''maxUses'' else JNum 1) = Inr n"
    by blast
  from ok dateOf_accepts [of "getProp data ''expiresAt''" e]
  obtain x where x: "dateOf (expiresAtArg e (getProp data ''expiresAt'')) = Inr x"
    by blast
  from ok a n x show "status (fst (POST_codes e (Some data) s)) = 200"
    unfolding POST_codes_invite [OF assms]
    by (simp add: inviteCode_create_def Let_def json_def del: int32Of.simps)
qed

theorem invite_code_maxUses_defaults_to_one_witness:
  "(case POST_codes sampleEnv (Some (adminRequest [(''type'', JStr ''invite''), (''maxUses'', JNum 0)]))
          sampleStore of
     (r, s') \<Rightarrow> status r = 200 \<and> (\<exists>row. inviteCodes s' = [sampleInvite, row] \<and> ic_maxUses row = 1))
   \<and> (case POST_codes sampleEnv (Some (adminRequest [(''type'', JStr ''invite''), (''maxUses'', JNum 5)]))
          sampleStore of
     (r, s') \<Rightarrow> status r = 200 \<and> (\<exists>row. inviteCodes s' = [sampleInvite, row] \<and> ic_maxUses row = 5))"
proof -
  have w: "case POST_codes sampleEnv
                 (Some (adminRequest [(''type'', JStr ''invite''), (''maxUses'', JNum (of_int k))]))
                 sampleStore of
             (r, s') \<Rightarrow> status r = 200
               \<and> (\<exists>row. inviteCodes s' = [sampleInvite, row] \<and> ic_maxUses row = (if k = 0 then 1 else k))"
    if k: "- (2 ^ 31) \<le> k" "k < 2 ^ 31" for k :: int
  proof -
    let ?d = "adminRequest [(''type'', JStr ''invite''), (''maxUses'', JNum (of_int k))]"
    have a: "truthy (getProp ?d ''adminUserId'')" by (simp add: adminRequest_def)
    have b: "checkUserPermission sampleEnv (getProp ?d ''adminUserId'') ''admin_panel''"
      by (simp add: adminRequest_def sampleEnv_def)
    have c: "getProp ?d ''type'' = JStr ''invite''" by (simp add: adminRequest_def)
    have m: "getProp ?d ''maxUses'' = JNum (of_int k)" by (simp add: adminRequest_def)
    note t = invite_code_maxUses_defaults_to_one [OF a b c, of sampleStore]
    have ok: "status (fst (POST_codes sampleEnv (Some ?d) sampleStore)) = 200"
    proof (rule t [THEN conjunct2, rule_format], intro conjI)
      show "\<exists>a. getProp ?d ''adminUserId'' = JStr a
               \<and> find (\<lambda>u. user_id u = a) (users sampleStore) \<noteq> None"
        by (simp add: adminRequest_def sampleStore_def sampleUser_def)
      show "\<not> truthy (getProp ?d ''maxUses'')
              \<or> (\<exists>n. getProp ?d ''maxUses'' = JNum (of_int n) \<and> - (2 ^ 31) \<le> n \<and> n < 2 ^ 31)"
        using k m by blast
      show "\<not> truthy (getProp ?d ''expiresAt'') \<or> newDate sampleEnv (getProp ?d ''expiresAt'') \<noteq> None"
        by (simp add: adminRequest_def)
      show "\<not> dbFails sampleEnv InviteCodeCreate" by (simp add: sampleEnv_def)
      show "\<forall>c \<in> set (inviteCodes sampleStore).
              ic_id c \<noteq> cuid sampleEnv InviteCodeCreate \<and> ic_code c \<noteq> generateInviteCode sampleEnv"
        by (simp add: sampleEnv_def sampleStore_def sampleInvite_def)
    qed
    obtain r s' where rs: "POST_codes sampleEnv (Some ?d) sampleStore = (r, s')"
      by (cases "POST_codes sampleEnv (Some ?d) sampleStore")
    with ok have st: "status r = 200" by simp
    with t [THEN conjunct1, rule_format, of r s'] rs
    obtain row where row: "inviteCodes s' = inviteCodes sampleStore @ [row]"
      "\<forall>n. getProp ?d ''maxUses'' = JNum (of_int n) \<and> n \<noteq> 0 \<longrightarrow> ic_maxUses row = n"
      "\<not> truthy (getProp ?d ''maxUses'') \<longrightarrow> ic_maxUses row = 1"
      by blast
    from row(2,3) m have "ic_maxUses row = (if k = 0 then 1 else k)" by auto
    with row(1) have "inviteCodes s' = [sampleInvite, row] \<and> ic_maxUses row = (if k = 0 then 1 else k)"
      by (simp add: sampleStore_def)
    with rs st show ?thesis by auto
  qed
  from w [of 0] w [of 5] show ?thesis by simp
qed

subsection \<open>Toggling a code\<close>

lemma find_Some_unique:
  assumes "distinct (map f xs)" and "find (\<lambda>c. f c = k) xs = Some c"
    and "r \<in> set xs" and "f r = k"
  shows "r = c"
proof -
  from assms(2) have "c \<in> set xs" and "f c = k"
    by (auto simp: find_Some_iff)
  moreover from assms(1) have "inj_on f (set xs)"
    by (simp add: distinct_map)
  ultimately show ?thesis using assms(3,4) by (auto dest: inj_onD)
qed

lemma PATCH_codes_toggle:
  assumes "truthy (getProp data ''adminUserId'')"
    and "checkUserPermission e (getProp data ''adminUserId'') ''admin_panel''"
    and "getProp data ''codeId'' = JStr k" and "k \<noteq> []"
    and "getProp data ''action'' = JStr ''toggle''"
  shows "getProp data ''type'' = JStr ''invite''
           \<Longrightarrow> PATCH_codes e (Some data) s = toggleInviteCode e (JStr k) s"
    and "getProp data ''type'' = JStr ''access''
           \<Longrightarrow> PATCH_codes e (Some data) s = toggleAccessCode e (JStr k) s"
proof -
  have n: "data \<noteq> JNull" using assms(1) by auto
  show "getProp data ''type'' = JStr ''invite''
           \<Longrightarrow> PATCH_codes e (Some data) s = toggleInviteCode e (JStr k) s"
    using assms n by (cases data) (simp_all add: PATCH_codes_def Let_def)
  show "getProp data ''type'' = JStr ''access''
           \<Longrightarrow> PATCH_codes e (Some data) s = toggleAccessCode e (JStr k) s"
    using assms n by (cases data) (simp_all add: PATCH_codes_def Let_def)
qed

lemma toggleInviteCode_result:
  assumes "distinct (map ic_id (inviteCodes s))"
  shows "toggleInviteCode e (JStr k) s =
     (if dbFails e InviteCodeFindUnique then (\<lparr>status = 500, body = Error ''Failed to update code''\<rparr>, s)
      else case find (\<lambda>c. ic_id c = k) (inviteCodes s) of
        None \<Rightarrow> (\<lparr>status = 404, body = Error ''Invite code not found''\<rparr>, s)
      | Some c \<Rightarrow>
          if dbFails e InviteCodeUpdate then (\<lparr>status = 500, body = Error ''Failed to update code''\<rparr>, s)
          else (\<lparr>status = 200,
                 body = InviteCodeBody (c\<lparr>ic_isUsed := \<not> ic_isUsed c, ic_updatedAt := now e\<rparr>) None\<rparr>,
                s\<lparr>inviteCodes :=
                    map (\<lambda>r. if ic_id r = k then r\<lparr>ic_isUsed := \<not> ic_isUsed r, ic_updatedAt := now e\<rparr>
                              else r) (inviteCodes s)\<rparr>))"
proof (cases "find (\<lambda>c. ic_id c = k) (inviteCodes s)")
  case None
  then show ?thesis
    by (simp add: toggleInviteCode_def inviteCode_findUnique_def json_def)
next
  case (Some c)
  have u: "\<And>r. r \<in> set (inviteCodes s) \<Longrightarrow> ic_id r = k \<Longrightarrow> r = c"
    using find_Some_unique [OF assms Some] by blast
  have m: "map (\<lambda>r. if ic_id r = k then c\<lparr>ic_isUsed := \<not> ic_isUsed c, ic_updatedAt := now e\<rparr> else r)
             (inviteCodes s)
         = map (\<lambda>r. if ic_id r = k then r\<lparr>ic_isUsed := \<not> ic_isUsed r, ic_updatedAt := now e\<rparr> else r)
             (inviteCodes s)"
    by (rule map_cong [OF refl]) (auto dest: u)
  show ?thesis using Some m
    by (simp add: toggleInviteCode_def inviteCode_findUnique_def inviteCode_update_def json_def Let_def)
qed

lemma toggleAccessCode_result:
  assumes "distinct (map ac_id (accessCodes s))"
  shows "toggleAccessCode e (JStr k) s =
     (if dbFails e AccessCodeFindUnique then (\<lparr>status = 500, body = Error ''Failed to update code''\<rparr>, s)
      else case find (\<lambda>c. ac_id c = k) (accessCodes s) of
        None \<Rightarrow> (\<lparr>status = 404, body = Error ''Access code not found''\<rparr>, s)
      | Some c \<Rightarrow>
          if dbFails e AccessCodeUpdate then (\<lparr>status = 500, body = Error ''Failed to update code''\<rparr>, s)
          else (\<lparr>status = 200,
                 body = AccessCodeBody (c\<lparr>ac_isActive := \<not> ac_isActive c, ac_updatedAt := now e\<rparr>) None\<rparr>,
                s\<lparr>accessCodes :=
                    map (\<lambda>r. if ac_id r = k then r\<lparr>ac_isActive := \<not> ac_isActive r, ac_updatedAt := now e\<rparr>
                              else r) (accessCodes s)\<rparr>))"
proof (cases "find (\<lambda>c. ac_id c = k) (accessCodes s)")
  case None
  then show ?thesis
    by (simp add: toggleAccessCode_def accessCode_findUnique_def json_def)
next
  case (Some c)
  have u: "\<And>r. r \<in> set (accessCodes s) \<Longrightarrow> ac_id r = k \<Longrightarrow> r = c"
    using find_Some_unique [OF assms Some] by blast
  have m: "map (\<lambda>r. if ac_id r = k then c\<lparr>ac_isActive := \<not> ac_isActive c, ac_updatedAt := now e\<rparr> else r)
             (accessCodes s)
         = map (\<lambda>r. if ac_id r = k then r\<lparr>ac_isActive := \<not> ac_isActive r, ac_updatedAt := now e\<rparr> else r)
             (accessCodes s)"
    by (rule map_cong [OF refl]) (auto dest: u)
  show ?thesis using Some m
    by (simp add: toggleAccessCode_def accessCode_findUnique_def accessCode_update_def json_def Let_def)
qed

text \<open>
  C5, as the specification words it, fails on the \<^verbatim>\<open>updatedAt\<close> column: the schema declares it
  \<^verbatim>\<open>@updatedAt\<close>, so the update that negates the flag also writes the time of the update.
\<close>

theorem toggle_touches_updatedAt_counterexample:
  "case PATCH_codes sampleEnv
          (Some (adminRequest [(''codeId'', JStr ''i1''), (''type'', JStr ''invite''),
                               (''action'', JStr ''toggle'')])) sampleStore of
     (r, s') \<Rightarrow> status r = 200
        \<and> inviteCodes s' = [sampleInvite\<lparr>ic_isUsed := True, ic_updatedAt := 1000\<rparr>]
        \<and> ic_updatedAt sampleInvite \<noteq> 1000"
  by (simp add: PATCH_codes_def adminRequest_def sampleEnv_def sampleStore_def json_def
        toggleInviteCode_def inviteCode_findUnique_def inviteCode_update_def sampleInvite_def Let_def)

text \<open>
  C5, amended. For a toggle by a permitted administrator on a table whose ids are
  distinct: when the answer is 200, the row with the given id has its flag negated
  (\<^verbatim>\<open>isUsed\<close> of an invite code, \<^verbatim>\<open>isActive\<close> of an access code) and its \<^verbatim>\<open>updatedAt\<close> set
  to the time of the update, and every other column, every other row and every other
  table is as before; with any other answer the store is as before. The answer is 200
  when the row exists and neither statement fails.
\<close>

theorem toggle_flips_only_the_flag:
  assumes "truthy (getProp data ''adminUserId'')"
    and "checkUserPermission e (getProp data ''adminUserId'') ''admin_panel''"
    and "getProp data ''codeId'' = JStr k" and "k \<noteq> []"
    and "getProp data ''action'' = JStr ''toggle''"
    and "distinct (map ic_id (inviteCodes s))" and "distinct (map ac_id (accessCodes s))"
  shows "(getProp data ''type'' = JStr ''invite'' \<longrightarrow>
           (\<forall>r s'. PATCH_codes e (Some data) s = (r, s') \<longrightarrow>
              (if status r = 200
               then s' = s\<lparr>inviteCodes :=
                            map (\<lambda>c. if ic_id c = k
                                      then c\<lparr>ic_isUsed := \<not> ic_isUsed c, ic_updatedAt := now e\<rparr>
                                      else c) (inviteCodes s)\<rparr>
                    \<and> (\<exists>c \<in> set (inviteCodes s). ic_id c = k)
               else s' = s)))
       \<and> (getProp data ''type'' = JStr ''access'' \<longrightarrow>
           (\<forall>r s'. PATCH_codes e (Some data) s = (r, s') \<longrightarrow>
              (if status r = 200
               then s' = s\<lparr>accessCodes :=
                            map (\<lambda>c. if ac_id c = k
                                      then c\<lparr>ac_isActive := \<not> ac_isActive c, ac_updatedAt := now e\<rparr>
                                      else c) (accessCodes s)\<rparr>
                    \<and> (\<exists>c \<in> set (accessCodes s). ac_id c = k)
               else s' = s)))
       \<and> (getProp data ''type'' = JStr ''invite'' \<and> \<not> dbFails e InviteCodeFindUnique
            \<and> \<not> dbFails e InviteCodeUpdate \<and> (\<exists>c \<in> set (inviteCodes s). ic_id c = k)
           \<longrightarrow> status (fst (PATCH_codes e (Some data) s)) = 200)
       \<and> (getProp data ''type'' = JStr ''access'' \<and> \<not> dbFails e AccessCodeFindUnique
            \<and> \<not> dbFails e AccessCodeUpdate \<and> (\<exists>c \<in> set (accessCodes s). ac_id c = k)
           \<longrightarrow> status (fst (PATCH_codes e (Some data) s)) = 200)"
proof -
  note i = PATCH_codes_toggle(1) [OF assms(1-5)] toggleInviteCode_result [OF assms(6), of e k]
  note a = PATCH_codes_toggle(2) [OF assms(1-5)] toggleAccessCode_result [OF assms(7), of e k]
  have 1: "getProp data ''type'' = JStr ''invite'' \<longrightarrow>
           (\<forall>r s'. PATCH_codes e (Some data) s = (r, s') \<longrightarrow>
              (if status r = 200
               then s' = s\<lparr>inviteCodes :=
                            map (\<lambda>c. if ic_id c = k
                                      then c\<lparr>ic_isUsed := \<not> ic_isUsed c, ic_updatedAt := now e\<rparr>
                                      else c) (inviteCodes s)\<rparr>
                    \<and> (\<exists>c \<in> set (inviteCodes s). ic_id c = k)
               else s' = s))"
    by (auto simp: i find_Some_iff split: if_splits option.splits)
  have 2: "getProp data ''type'' = JStr ''access'' \<longrightarrow>
           (\<forall>r s'. PATCH_codes e (Some data) s = (r, s') \<longrightarrow>
              (if status r = 200
               then s' = s\<lparr>accessCodes :=
                            map (\<lambda>c. if ac_id c = k
                                      then c\<lparr>ac_isActive := \<not> ac_isActive c, ac_updatedAt := now e\<rparr>
                                      else c) (accessCodes s)\<rparr>
                    \<and> (\<exists>c \<in> set (accessCodes s). ac_id c = k)
               else s' = s))"
    by (auto simp: a find_Some_iff split: if_splits option.splits)
  have 3: "getProp data ''type'' = JStr ''invite'' \<and> \<not> dbFails e InviteCodeFindUnique
            \<and> \<not> dbFails e InviteCodeUpdate \<and> (\<exists>c \<in> set (inviteCodes s). ic_id c = k)
           \<longrightarrow> status (fst (PATCH_codes e (Some data) s)) = 200"
    by (auto simp: i find_None_iff split: option.splits)
  have 4: "getProp data ''type'' = JStr ''access'' \<and> \<not> dbFails e AccessCodeFindUnique
            \<and> \<not> dbFails e AccessCodeUpdate \<and> (\<exists>c \<in> set (accessCodes s). ac_id c = k)
           \<longrightarrow> status (fst (PATCH_codes e (Some data) s)) = 200"
    by (auto simp: a find_None_iff split: option.splits)
  from 1 2 3 4 show ?thesis by blast
qed


theorem toggle_flips_only_the_flag_witness:
  "PATCH_codes sampleEnv
     (Some (adminRequest [(''codeId'', JStr ''a1''), (''type'', JStr ''access''),
                          (''action'', JStr ''toggle'')])) sampleStore
   = (fst (PATCH_codes sampleEnv
            (Some (adminRequest [(''codeId'', JStr ''a1''), (''type'', JStr ''access''),
                                 (''action'', JStr ''toggle'')])) sampleStore),
      sampleStore\<lparr>accessCodes := [sampleAccess\<lparr>ac_isActive := False, ac_updatedAt := 1000\<rparr>]\<rparr>)"
proof -
  let ?d = "adminRequest [(''codeId'', JStr ''a1''), (''type'', JStr ''access''),
                          (''action'', JStr ''toggle'')]"
  have a: "truthy (getProp ?d ''adminUserId'')" by (simp add: adminRequest_def)
  have b: "checkUserPermission sampleEnv (getProp ?d ''adminUserId'') ''admin_panel''"
    by (simp add: adminRequest_def sampleEnv_def)
  have c: "getProp ?d ''codeId'' = JStr ''a1''" "''a1'' \<noteq> []" "getProp ?d ''action'' = JStr ''toggle''"
    by (simp_all add: adminRequest_def)
  have d: "distinct (map ic_id (inviteCodes sampleStore))" "distinct (map ac_id (accessCodes sampleStore))"
    by (simp_all add: sampleStore_def)
  have t: "getProp ?d ''type'' = JStr ''access''" by (simp add: adminRequest_def)
  note th = toggle_flips_only_the_flag [OF a b c d]
  have ok: "status (fst (PATCH_codes sampleEnv (Some ?d) sampleStore)) = 200"
    by (rule th [THEN conjunct2, THEN conjunct2, THEN conjunct2, rule_format])
       (simp add: t sampleEnv_def sampleStore_def sampleAccess_def)
  obtain r s' where rs: "PATCH_codes sampleEnv (Some ?d) sampleStore = (r, s')"
    by (cases "PATCH_codes sampleEnv (Some ?d) sampleStore")
  with ok have "status r = 200" by simp
  with th [THEN conjunct2, THEN conjunct1, rule_format, OF t rs]
  have "s' = sampleStore\<lparr>accessCodes :=
              map (\<lambda>c. if ac_id c = ''a1''
                        then c\<lparr>ac_isActive := \<not> ac_isActive c, ac_updatedAt := now sampleEnv\<rparr>
                        else c) (accessCodes sampleStore)\<rparr>"
    by simp
  then have "s' = sampleStore\<lparr>accessCodes := [sampleAccess\<lparr>ac_isActive := False, ac_updatedAt := 1000\<rparr>]\<rparr>"
    by (simp add: sampleStore_def sampleAccess_def sampleEnv_def)
  with rs show ?thesis by simp
qed

subsection \<open>Naming a row that does not exist\<close>

lemma DELETE_users_missing_user:
  assumes "truthy adminUserId" and "checkUserPermission e adminUserId ''admin_panel''"
    and "getProp data ''adminUserId'' = adminUserId"
    and "getProp data ''userId'' = JStr u" and "u \<noteq> []" and "adminUserId \<noteq> JStr u"
    and "find (\<lambda>x. user_id x = u) (users s) = None" and "\<not> dbFails e UserFindUnique"
  shows "DELETE_users e (Some data) s = (\<lparr>status = 404, body = Error ''User not found''\<rparr>, s, [])"
proof -
  have n: "data \<noteq> JNull" using assms(1,3) by auto
  show ?thesis using assms n
    by (cases data) (simp_all add: DELETE_users_def json_def Let_def user_findUnique_def)
qed

lemma toggle_missing_code:
  assumes "truthy (getProp data ''adminUserId'')"
    and "checkUserPermission e (getProp data ''adminUserId'') ''admin_panel''"
    and "getProp data ''codeId'' = JStr k" and "k \<noteq> []"
    and "getProp data ''action'' = JStr ''toggle''"
  shows "getProp data ''type'' = JStr ''invite'' \<Longrightarrow> \<not> dbFails e InviteCodeFindUnique
           \<Longrightarrow> find (\<lambda>c. ic_id c = k) (inviteCodes s) = None
           \<Longrightarrow> PATCH_codes e (Some data) s
                 = (\<lparr>status = 404, body = Error ''Invite code not found''\<rparr>, s)"
    and "getProp data ''type'' = JStr ''access'' \<Longrightarrow> \<not> dbFails e AccessCodeFindUnique
           \<Longrightarrow> find (\<lambda>c. ac_id c = k) (accessCodes s) = None
           \<Longrightarrow> PATCH_codes e (Some data) s
                 = (\<lparr>status = 404, body = Error ''Access code not found''\<rparr>, s)"
  by (simp_all add: PATCH_codes_toggle [OF assms] toggleInviteCode_def toggleAccessCode_def
        inviteCode_findUnique_def accessCode_findUnique_def json_def)

text \<open>
  C4. The users DELETE handler and the toggle of the codes PATCH handler look the row up
  and answer 404 when it is missing (the two lemmas above). The codes DELETE handler does
  not: for a permitted request that names a code id no row has, it calls \<^verbatim>\<open>delete\<close> at
  once, the client rejects because the row to delete does not exist, and the outer
  \<^verbatim>\<open>catch\<close> answers 500, for an invite code and for an access code alike.
\<close>

theorem delete_missing_code_answers_500:
  assumes "truthy (getProp data ''adminUserId'')"
    and "checkUserPermission e (getProp data ''adminUserId'') ''admin_panel''"
    and "getProp data ''codeId'' = JStr k" and "k \<noteq> []"
  shows "(getProp data ''type'' = JStr ''invite'' \<and> find (\<lambda>c. ic_id c = k) (inviteCodes s) = None
            \<longrightarrow> DELETE_codes e (Some data) s
                  = (\<lparr>status = 500, body = Error ''Failed to delete code''\<rparr>, s))
       \<and> (getProp data ''type'' = JStr ''access'' \<and> find (\<lambda>c. ac_id c = k) (accessCodes s) = None
            \<longrightarrow> DELETE_codes e (Some data) s
                  = (\<lparr>status = 500, body = Error ''Failed to delete code''\<rparr>, s))"
proof -
  have n: "data \<noteq> JNull" using assms(1) by auto
  have i: "getProp data ''type'' = JStr ''invite'' \<and> find (\<lambda>c. ic_id c = k) (inviteCodes s) = None
            \<longrightarrow> DELETE_codes e (Some data) s
                  = (\<lparr>status = 500, body = Error ''Failed to delete code''\<rparr>, s)"
    using assms n
    by (cases data) (simp_all add: DELETE_codes_def json_def Let_def inviteCode_delete_def)
  have a: "getProp data ''type'' = JStr ''access'' \<and> find (\<lambda>c. ac_id c = k) (accessCodes s) = None
            \<longrightarrow> DELETE_codes e (Some data) s
                  = (\<lparr>status = 500, body = Error ''Failed to delete code''\<rparr>, s)"
    using assms n
    by (cases data) (simp_all add: DELETE_codes_def json_def Let_def accessCode_delete_def)
  from i a show ?thesis by blast
qed

theorem delete_missing_code_answers_500_witness:
  "DELETE_codes sampleEnv (Some (adminRequest [(''codeId'', JStr ''missing''), (''type'', JStr ''invite'')]))
      sampleStore = (\<lparr>status = 500, body = Error ''Failed to delete code''\<rparr>, sampleStore)"
proof -
  let ?d = "adminRequest [(''codeId'', JStr ''missing''), (''type'', JStr ''invite'')]"
  have a: "truthy (getProp ?d ''adminUserId'')" by (simp add: adminRequest_def)
  have b: "checkUserPermission sampleEnv (getProp ?d ''adminUserId'') ''admin_panel''"
    by (simp add: adminRequest_def sampleEnv_def)
  have c: "getProp ?d ''codeId'' = JStr ''missing''" "''missing'' \<noteq> []"
    by (simp_all add: adminRequest_def)
  have d: "getProp ?d ''type'' = JStr ''invite''
             \<and> find (\<lambda>c. ic_id c = ''missing'') (inviteCodes sampleStore) = None"
    by (simp add: adminRequest_def sampleStore_def sampleInvite_def)
  from delete_missing_code_answers_500 [OF a b c, of sampleStore] d show ?thesis by blast
qed

subsection \<open>The permission check\<close>

lemma GET_denied:
  assumes "searchParams ''adminUserId'' = Some q" and "q \<noteq> []"
    and "\<not> checkUserPermission e (JStr q) ''admin_panel''"
  shows "GET_users e searchParams s = (denied, s)"
    and "GET_codes e searchParams s = (denied, s)"
    and "GET_database_reset e searchParams = (denied, [])"
  using assms
  by (simp_all add: GET_users_def GET_codes_def GET_database_reset_def orDefault_def json_def
        denied_def Let_def)

lemma POST_database_reset_denied:
  assumes "truthy (getProp data ''adminUserId'')"
    and "\<not> checkUserPermission e (getProp data ''adminUserId'') ''admin_panel''"
  shows "POST_database_reset e (Some data) = (denied, [])"
proof -
  have n: "data \<noteq> JNull" using assms(1) by auto
  show ?thesis using assms n
    by (cases data) (simp_all add: POST_database_reset_def json_def denied_def)
qed

lemma POST_users_denied:
  assumes "truthy (getProp data ''adminUserId'')"
    and "\<not> checkUserPermission e (getProp data ''adminUserId'') ''admin_panel''"
  shows "POST_users e (Some data) s =
     (if \<not> truthy (getProp data ''username'')
      then \<lparr>status = 400, body = Error ''adminUserId and username are required''\<rparr>
      else if \<not> truthy (getProp data ''password'')
      then \<lparr>status = 400, body = Error ''Password is required''\<rparr>
      else denied, s)"
proof -
  have n: "data \<noteq> JNull" using assms(1) by auto
  show ?thesis using assms n
    by (cases data) (simp_all add: POST_users_def json_def denied_def Let_def)
qed

lemma PATCH_users_denied:
  assumes "truthy (getProp data ''adminUserId'')"
    and "\<not> checkUserPermission e (getProp data ''adminUserId'') ''admin_panel''"
  shows "PATCH_users e (Some data) s =
     (if \<not> truthy (getProp data ''userId'') \<or> \<not> truthy (getProp data ''action'')
      then \<lparr>status = 400, body = Error ''adminUserId, userId, and action are required''\<rparr>
      else denied, s)"
proof -
  have n: "data \<noteq> JNull" using assms(1) by auto
  show ?thesis using assms n
    by (cases data) (simp_all add: PATCH_users_def json_def denied_def Let_def del: rest_of.simps)
qed

lemma DELETE_users_denied:
  assumes "truthy (getProp data ''adminUserId'')"
    and "\<not> checkUserPermission e (getProp data ''adminUserId'') ''admin_panel''"
  shows "DELETE_users e (Some data) s =
     (if \<not> truthy (getProp data ''userId'')
      then \<lparr>status = 400, body = Error ''adminUserId and userId are required''\<rparr>
      else denied, s, [])"
proof -
  have n: "data \<noteq> JNull" using assms(1) by auto
  show ?thesis using assms n
    by (cases data) (simp_all add: DELETE_users_def json_def denied_def Let_def)
qed

lemma POST_codes_denied:
  assumes "truthy (getProp data ''adminUserId'')"
    and "\<not> checkUserPermission e (getProp data ''adminUserId'') ''admin_panel''"
  shows "POST_codes e (Some data) s =
     (if \<not> truthy (getProp data ''type'')
      then \<lparr>status = 400, body = Error ''adminUserId and type are required''\<rparr>
      else denied, s)"
proof -
  have n: "data \<noteq> JNull" using assms(1) by auto
  show ?thesis using assms n
    by (cases data) (simp_all add: POST_codes_def json_def denied_def Let_def)
qed

lemma DELETE_codes_denied:
  assumes "truthy (getProp data ''adminUserId'')"
    and "\<not> checkUserPermission e (getProp data ''adminUserId'') ''admin_panel''"
  shows "DELETE_codes e (Some data) s =
     (if \<not> truthy (getProp data ''codeId'') \<or> \<not> truthy (getProp data ''type'')
      then \<lparr>status = 400, body = Error ''adminUserId, codeId, and type are required''\<rparr>
      else denied, s)"
proof -
  have n: "data \<noteq> JNull" using assms(1) by auto
  show ?thesis using assms n
    by (cases data) (simp_all add: DELETE_codes_def json_def denied_def Let_def)
qed

lemma PATCH_codes_denied:
  assumes "truthy (getProp data ''adminUserId'')"
    and "\<not> checkUserPermission e (getProp data ''adminUserId'') ''admin_panel''"
  shows "PATCH_codes e (Some data) s =
     (if \<not> truthy (getProp data ''codeId'') \<or> \<not> truthy (getProp data ''type'')
         \<or> \<not> truthy (getProp data ''action'')
      then \<lparr>status = 400, body = Error ''adminUserId, codeId, type, and action are required''\<rparr>
      else denied, s)"
proof -
  have n: "data \<noteq> JNull" using assms(1) by auto
  show ?thesis using assms n
    by (cases data) (simp_all add: PATCH_codes_def json_def denied_def Let_def)
qed

text \<open>
  C1, as the specification words it, fails on a request that lacks a required parameter: the
  handlers validate the parameters before they ask for the permission, so a caller without
  the permission who sends no password to the user-creation handler is answered 400.
\<close>

theorem denied_caller_missing_parameter_counterexample:
  "\<not> checkUserPermission sampleEnv (JStr ''u2'') ''admin_panel''
   \<and> POST_users sampleEnv
       (Some (JObj [(''adminUserId'', JStr ''u2''), (''username'', JStr ''eve'')])) sampleStore
     = (\<lparr>status = 400, body = Error ''Password is required''\<rparr>, sampleStore)"
  by (simp add: POST_users_def sampleEnv_def json_def)

text \<open>
  C1, amended. For each of the ten handlers and a caller for whom the permission check
  answers false: the store is returned as it was (for the reset handlers, no command is
  started); the answer is 403 when the request carries the parameters the handler
  requires, and the 400 of the validation, which comes first, when it lacks one.
\<close>

theorem denied_caller_gets_403_and_no_mutation:
  assumes "searchParams ''adminUserId'' = Some q" and "q \<noteq> []"
    and "\<not> checkUserPermission e (JStr q) ''admin_panel''"
    and "truthy (getProp data ''adminUserId'')"
    and "\<not> checkUserPermission e (getProp data ''adminUserId'') ''admin_panel''"
  shows "GET_users e searchParams s = (denied, s)
       \<and> GET_codes e searchParams s = (denied, s)
       \<and> GET_database_reset e searchParams = (denied, [])
       \<and> POST_database_reset e (Some data) = (denied, [])
       \<and> snd (POST_users e (Some data) s) = s
       \<and> status (fst (POST_users e (Some data) s))
            = (if truthy (getProp data ''username'') \<and> truthy (getProp data ''password'') then 403 else 400)
       \<and> (truthy (getProp data ''username'') \<and> truthy (getProp data ''password'')
            \<longrightarrow> POST_users e (Some data) s = (denied, s))
       \<and> snd (PATCH_users e (Some data) s) = s
       \<and> status (fst (PATCH_users e (Some data) s))
            = (if truthy (getProp data ''userId'') \<and> truthy (getProp data ''action'') then 403 else 400)
       \<and> (truthy (getProp data ''userId'') \<and> truthy (getProp data ''action'')
            \<longrightarrow> PATCH_users e (Some data) s = (denied, s))
       \<and> snd (DELETE_users e (Some data) s) = (s, [])
       \<and> status (fst (DELETE_users e (Some data) s))
            = (if truthy (getProp data ''userId'') then 403 else 400)
       \<and> (truthy (getProp data ''userId'') \<longrightarrow> DELETE_users e (Some data) s = (denied, s, []))
       \<and> snd (POST_codes e (Some data) s) = s
       \<and> status (fst (POST_codes e (Some data) s))
            = (if truthy (getProp data ''type'') then 403 else 400)
       \<and> (truthy (getProp data ''type'') \<longrightarrow> POST_codes e (Some data) s = (denied, s))
       \<and> snd (DELETE_codes e (Some data) s) = s
       \<and> status (fst (DELETE_codes e (Some data) s))
            = (if truthy (getProp data ''codeId'') \<and> truthy (getProp data ''type'') then 403 else 400)
       \<and> (truthy (getProp data ''codeId'') \<and> truthy (getProp data ''type'')
            \<longrightarrow> DELETE_codes e (Some data) s = (denied, s))
       \<and> snd (PATCH_codes e (Some data) s) = s
       \<and> status (fst (PATCH_codes e (Some data) s))
            = (if truthy (getProp data ''codeId'') \<and> truthy (getProp data ''type'')
                   \<and> truthy (getProp data ''action'') then 403 else 400)
       \<and> (truthy (getProp data ''codeId'') \<and> truthy (getProp data ''type'')
            \<and> truthy (getProp data ''action'')
            \<longrightarrow> PATCH_codes e (Some data) s = (denied, s))"
  unfolding GET_denied [where searchParams = searchParams and q = q and e = e, OF assms(1-3)]
    POST_database_reset_denied [OF assms(4,5)]
    POST_users_denied [OF assms(4,5)] PATCH_users_denied [OF assms(4,5)]
    DELETE_users_denied [OF assms(4,5)] POST_codes_denied [OF assms(4,5)]
    DELETE_codes_denied [OF assms(4,5)] PATCH_codes_denied [OF assms(4,5)]
  by (simp add: denied_def)

theorem denied_caller_gets_403_and_no_mutation_witness:
  "GET_codes sampleEnv [''adminUserId'' \<mapsto> ''u2''] sampleStore = (denied, sampleStore)
   \<and> DELETE_users sampleEnv
       (Some (JObj [(''adminUserId'', JStr ''u2''), (''userId'', JStr ''admin1'')])) sampleStore
     = (denied, sampleStore, [])"
proof -
  let ?d = "JObj [(''adminUserId'', JStr ''u2''), (''userId'', JStr ''admin1'')]"
  have a: "[''adminUserId'' \<mapsto> ''u2''] ''adminUserId'' = Some ''u2''" "''u2'' \<noteq> []"
    "\<not> checkUserPermission sampleEnv (JStr ''u2'') ''admin_panel''"
    by (simp_all add: sampleEnv_def)
  have b: "truthy (getProp ?d ''adminUserId'')"
    "\<not> checkUserPermission sampleEnv (getProp ?d ''adminUserId'') ''admin_panel''"
    by (simp_all add: sampleEnv_def)
  have c: "truthy (getProp ?d ''userId'')" by simp
  from denied_caller_gets_403_and_no_mutation [where searchParams = "[''adminUserId'' \<mapsto> ''u2'']" and q = "''u2''" and e = sampleEnv
      and data = ?d and s = sampleStore, OF a b] c
  show ?thesis by blast
qed

subsection \<open>Deleting a user\<close>

lemma users_deleteConversationsWhere [simp]: "users (deleteConversationsWhere p s) = users s"
  by (simp add: deleteConversationsWhere_def cascadeConversations_def)

lemma users_cascadeUser [simp]: "users (cascadeUser u s) = users s"
  by (simp add: cascadeUser_def)

lemma ownsNothing_cascadeUser:
  "\<forall>r \<in> set (users s). user_id r \<noteq> u \<Longrightarrow> ownsNothing u (cascadeUser u s)"
  by (auto simp: ownsNothing_def cascadeUser_def deleteConversationsWhere_def
        cascadeConversations_def split: option.splits)

lemma runSteps_deleteUser:
  assumes "find (\<lambda>x. user_id x = u) (users s) \<noteq> None"
  shows "\<exists>s'. runSteps f (deleteUserSteps (JStr u)) s =
           (if \<exists>op \<in> set deleteOrder. f op
            then (Inl ConnectionError, journalUpToFailure f deleteOrder)
            else (Inr s', deleteOrder))
         \<and> ownsNothing u s' \<and> users s' = filter (\<lambda>x. user_id x \<noteq> u) (users s)"
proof -
  from assms obtain y where y: "find (\<lambda>x. user_id x = u) (users s) = Some y" by blast
  define s6 where "s6 =
     (let s1 = s\<lparr>messages := filter (\<lambda>r. msg_userId r \<noteq> u) (messages s)\<rparr>;
          s2 = deleteConversationsWhere (\<lambda>x. x = u) s1;
          s3 = s2\<lparr>tokenUsages := filter (\<lambda>r. tu_userId r \<noteq> u) (tokenUsages s2)\<rparr>;
          s4 = s3\<lparr>userPermissions := filter (\<lambda>r. up_userId r \<noteq> u) (userPermissions s3)\<rparr>;
          s5 = s4\<lparr>inviteCodes := filter (\<lambda>r. ic_createdBy r \<noteq> u) (inviteCodes s4)\<rparr>
      in s5\<lparr>accessCodes := filter (\<lambda>r. ac_createdBy r \<noteq> u) (accessCodes s5)\<rparr>)"
  let ?s' = "cascadeUser u (s6\<lparr>users := filter (\<lambda>x. user_id x \<noteq> u) (users s)\<rparr>)"
  have eq: "runSteps f (deleteUserSteps (JStr u)) s =
           (if \<exists>op \<in> set deleteOrder. f op
            then (Inl ConnectionError, journalUpToFailure f deleteOrder)
            else (Inr ?s', deleteOrder))"
    by (simp add: y s6_def deleteUserSteps_def deleteOrder_def journalUpToFailure_def
          message_deleteMany_def conversation_deleteMany_def tokenUsage_deleteMany_def
          userPermission_deleteMany_def inviteCode_deleteMany_def accessCode_deleteMany_def
          user_delete_def Let_def)
  have own: "ownsNothing u ?s'"
    by (rule ownsNothing_cascadeUser) simp
  have us: "users ?s' = filter (\<lambda>x. user_id x \<noteq> u) (users s)"
    by simp
  from eq own us show ?thesis by blast
qed

lemma DELETE_users_passed:
  assumes "truthy adminUserId" and "checkUserPermission e adminUserId ''admin_panel''"
    and "getProp data ''adminUserId'' = adminUserId"
    and "getProp data ''userId'' = JStr u" and "u \<noteq> []" and "adminUserId \<noteq> JStr u"
    and "find (\<lambda>x. user_id x = u) (users s) \<noteq> None"
  shows "DELETE_users e (Some data) s =
     (if dbFails e UserFindUnique then (\<lparr>status = 500, body = Error ''Failed to delete user''\<rparr>, s, [])
      else case runSteps (dbFails e) (deleteUserSteps (JStr u)) s of
             (Inl x, j) \<Rightarrow> (\<lparr>status = 500, body = Error ''Failed to delete user''\<rparr>, s, j)
           | (Inr s', j) \<Rightarrow> (\<lparr>status = 200, body = Success ''User deleted successfully''\<rparr>, s', j))"
proof -
  have n: "data \<noteq> JNull" using assms(1,3) by auto
  from assms(7) obtain y where y: "find (\<lambda>x. user_id x = u) (users s) = Some y" by blast
  show ?thesis using assms(1-6) n y
    by (cases data)
       (auto simp: DELETE_users_def json_def Let_def user_findUnique_def transaction_def
          split: prod.splits sum.splits)
qed

text \<open>
  C2, as the specification words it, fails when the user named is the caller: the handler refuses
  with 400 before it looks the user up, and deletes nothing.
\<close>

theorem delete_own_account_counterexample:
  "find (\<lambda>x. user_id x = ''admin1'') (users sampleStore) \<noteq> None
   \<and> checkUserPermission sampleEnv (JStr ''admin1'') ''admin_panel''
   \<and> DELETE_users sampleEnv (Some (adminRequest [(''userId'', JStr ''admin1'')])) sampleStore
       = (\<lparr>status = 400, body = Error ''Cannot delete your own account''\<rparr>, sampleStore, [])"
  by (simp add: DELETE_users_def adminRequest_def sampleEnv_def sampleStore_def sampleUser_def
        json_def)

text \<open>
  C2, amended. For a permitted DELETE that names an existing user other than the caller:
  when no statement fails, the transaction issues the seven deletions in the order of
  \<open>deleteOrder\<close> (messages, conversations, token usage, permission, invite codes, access
  codes, user), the answer is 200, and the committed store holds no row of those tables
  that belongs to the user, nor the user, while every other user is kept; when the lookup
  or any of the seven statements fails, the answer is 500, the statements after the
  failing one are not issued, and the store is exactly the one before the request.
\<close>

theorem delete_user_is_all_or_nothing:
  assumes "truthy adminUserId" and "checkUserPermission e adminUserId ''admin_panel''"
    and "getProp data ''adminUserId'' = adminUserId"
    and "getProp data ''userId'' = JStr u" and "u \<noteq> []" and "adminUserId \<noteq> JStr u"
    and "find (\<lambda>x. user_id x = u) (users s) \<noteq> None"
  shows "\<exists>r s' j. DELETE_users e (Some data) s = (r, s', j)
     \<and> (\<not> dbFails e UserFindUnique \<and> (\<forall>op \<in> set deleteOrder. \<not> dbFails e op)
          \<longrightarrow> r = \<lparr>status = 200, body = Success ''User deleted successfully''\<rparr>
              \<and> j = deleteOrder \<and> ownsNothing u s'
              \<and> users s' = filter (\<lambda>x. user_id x \<noteq> u) (users s))
     \<and> (dbFails e UserFindUnique
          \<longrightarrow> r = \<lparr>status = 500, body = Error ''Failed to delete user''\<rparr> \<and> s' = s \<and> j = [])
     \<and> (\<not> dbFails e UserFindUnique \<and> (\<exists>op \<in> set deleteOrder. dbFails e op)
          \<longrightarrow> r = \<lparr>status = 500, body = Error ''Failed to delete user''\<rparr> \<and> s' = s
              \<and> j = journalUpToFailure (dbFails e) deleteOrder)"
proof -
  from runSteps_deleteUser [OF assms(7), of "dbFails e"]
  obtain t where t: "runSteps (dbFails e) (deleteUserSteps (JStr u)) s =
           (if \<exists>op \<in> set deleteOrder. dbFails e op
            then (Inl ConnectionError, journalUpToFailure (dbFails e) deleteOrder)
            else (Inr t, deleteOrder))"
    and own: "ownsNothing u t" and us: "users t = filter (\<lambda>x. user_id x \<noteq> u) (users s)"
    by blast
  show ?thesis
    unfolding DELETE_users_passed [OF assms] t
    using own us by auto
qed

theorem delete_user_is_all_or_nothing_witness:
  "DELETE_users sampleEnv (Some (adminRequest [(''userId'', JStr ''u2'')])) sampleStore
     = (\<lparr>status = 200, body = Success ''User deleted successfully''\<rparr>,
        \<lparr>users = [sampleUser ''admin1'' ''root'' ADMIN], userSettings = [], userPermissions = [],
         conversations = [], messages = [], tokenUsages = [], inviteCodes = [],
         accessCodes = [], modelGroupOrders = []\<rparr>,
        deleteOrder)
   \<and> DELETE_users (sampleEnv\<lparr>dbFails := (\<lambda>op. op = TokenUsageDeleteMany)\<rparr>)
       (Some (adminRequest [(''userId'', JStr ''u2'')])) sampleStore
     = (\<lparr>status = 500, body = Error ''Failed to delete user''\<rparr>, sampleStore,
        [MessageDeleteMany, ConversationDeleteMany, TokenUsageDeleteMany])"
proof -
  let ?d = "adminRequest [(''userId'', JStr ''u2'')]"
  let ?e2 = "sampleEnv\<lparr>dbFails := (\<lambda>op. op = TokenUsageDeleteMany)\<rparr>"
  have a: "truthy (JStr ''admin1'')" "getProp ?d ''adminUserId'' = JStr ''admin1''"
    "getProp ?d ''userId'' = JStr ''u2''" "''u2'' \<noteq> []" "JStr ''admin1'' \<noteq> JStr ''u2''"
    by (simp_all add: adminRequest_def)
  have p: "checkUserPermission sampleEnv (JStr ''admin1'') ''admin_panel''"
    "checkUserPermission ?e2 (JStr ''admin1'') ''admin_panel''"
    by (simp_all add: sampleEnv_def)
  have f: "find (\<lambda>x. user_id x = ''u2'') (users sampleStore) \<noteq> None"
    by (simp add: sampleStore_def sampleUser_def)
  have ok: "\<not> dbFails sampleEnv UserFindUnique \<and> (\<forall>op \<in> set deleteOrder. \<not> dbFails sampleEnv op)"
    by (simp add: sampleEnv_def)
  have ko: "\<not> dbFails ?e2 UserFindUnique \<and> (\<exists>op \<in> set deleteOrder. dbFails ?e2 op)"
    by (simp add: deleteOrder_def)
  have j: "journalUpToFailure (dbFails ?e2) deleteOrder
             = [MessageDeleteMany, ConversationDeleteMany, TokenUsageDeleteMany]"
    by (simp add: journalUpToFailure_def deleteOrder_def)
  from delete_user_is_all_or_nothing [OF a(1) p(1) a(2-5) f] ok
  obtain s' where 1: "DELETE_users sampleEnv (Some ?d) sampleStore
       = (\<lparr>status = 200, body = Success ''User deleted successfully''\<rparr>, s', deleteOrder)"
    and o: "ownsNothing ''u2'' s'"
    and u: "users s' = filter (\<lambda>x. user_id x \<noteq> ''u2'') (users sampleStore)"
    by blast
  have 2: "DELETE_users ?e2 (Some ?d) sampleStore
     = (\<lparr>status = 500, body = Error ''Failed to delete user''\<rparr>, sampleStore,
        [MessageDeleteMany, ConversationDeleteMany, TokenUsageDeleteMany])"
    using delete_user_is_all_or_nothing [OF a(1) p(2) a(2-5) f] ko j by auto
  have "snd (DELETE_users sampleEnv (Some ?d) sampleStore)
      = (\<lparr>users = [sampleUser ''admin1'' ''root'' ADMIN], userSettings = [], userPermissions = [],
         conversations = [], messages = [], tokenUsages = [], inviteCodes = [],
         accessCodes = [], modelGroupOrders = []\<rparr>, deleteOrder)"
    by (simp add: DELETE_users_def adminRequest_def sampleEnv_def sampleStore_def sampleUser_def
        json_def user_findUnique_def transaction_def deleteUserSteps_def deleteOrder_def
          message_deleteMany_def conversation_deleteMany_def tokenUsage_deleteMany_def
          userPermission_deleteMany_def inviteCode_deleteMany_def accessCode_deleteMany_def
          user_delete_def cascadeUser_def deleteConversationsWhere_def cascadeConversations_def
          sampleInvite_def sampleAccess_def samplePermission_def)
  with 1 2 show ?thesis by simp
qed

subsection \<open>Quota accounting\<close>

text \<open>
  C6. On the quota update modelled from the specification, for a permission row with a
  limit configured and one of the four periods: when the current time is past the end of
  the period that started at \<open>lastResetAt\<close>, the counter restarts from zero, so that it
  equals the new usage, and \<open>lastResetAt\<close> becomes the current time; up to and including
  the end of the period the counter is not reset: the new usage is added to it and
  \<open>lastResetAt\<close> stays. A day is 24 hours; a month, a quarter and a year are 1, 3 and 12
  months of the calendar.
\<close>

theorem quota_resets_only_after_period:
  assumes "up_limitType perm \<noteq> ''none''"
    and "periodOf (up_limitPeriod perm) = Some p"
  shows "(periodEnd addMonths p (up_lastResetAt perm) < t \<longrightarrow>
            resetIfDue addMonths t perm = perm\<lparr>up_tokenUsed := 0, up_lastResetAt := t\<rparr>
          \<and> up_tokenUsed (recordUsage addMonths t n perm) = n
          \<and> up_lastResetAt (recordUsage addMonths t n perm) = t)
       \<and> (t \<le> periodEnd addMonths p (up_lastResetAt perm) \<longrightarrow>
            resetIfDue addMonths t perm = perm
          \<and> up_tokenUsed (recordUsage addMonths t n perm) = up_tokenUsed perm + n
          \<and> up_lastResetAt (recordUsage addMonths t n perm) = up_lastResetAt perm)
       \<and> periodEnd addMonths Daily x = x + 24 * 60 * 60 * 1000
       \<and> periodEnd addMonths Monthly x = addMonths 1 x
       \<and> periodEnd addMonths Quarterly x = addMonths 3 x
       \<and> periodEnd addMonths Yearly x = addMonths 12 x"
  using assms(2)
  by (simp add: recordUsage_def resetIfDue_def periodEnd_def Let_def)

theorem quota_resets_only_after_period_witness:
  "up_tokenUsed (recordUsage (\<lambda>k x. x) 86400001 5 samplePermission) = 5
   \<and> up_lastResetAt (recordUsage (\<lambda>k x. x) 86400001 5 samplePermission) = 86400001
   \<and> up_tokenUsed (recordUsage (\<lambda>k x. x) 86400000 5 samplePermission) = 15
   \<and> up_lastResetAt (recordUsage (\<lambda>k x. x) 86400000 5 samplePermission) = 0"
proof -
  have a: "up_limitType samplePermission \<noteq> ''none''"
    by (simp add: samplePermission_def)
  have b: "periodOf (up_limitPeriod samplePermission) = Some Daily"
    by (simp add: samplePermission_def periodOf_def)
  have c: "periodEnd (\<lambda>k x. x) Daily (up_lastResetAt samplePermission) = 86400000"
    by (simp add: periodEnd_def samplePermission_def)
  have d: "up_tokenUsed samplePermission = 10" "up_lastResetAt samplePermission = 0"
    by (simp_all add: samplePermission_def)
  from quota_resets_only_after_period [OF a b, of "\<lambda>k x. x" 86400001 5]
       quota_resets_only_after_period [OF a b, of "\<lambda>k x. x" 86400000 5]
  show ?thesis unfolding c d by simp
qed

end
